theory Spec2Isabelle
  imports Complex_Main
begin

section \<open>Python values reaching the script\<close>

text \<open>
  The script \<^verbatim>\<open>etherscan_api_example.py\<close> works on values decoded from JSON
  (\<^verbatim>\<open>response.json()\<close>) and on Python floats produced by true division.
  Exceptions are values of \<open>exn\<close>; a computation that may raise returns
  \<open>exn + 'a\<close> with \<open>Inl\<close> for the raised exception.
\<close>

text \<open>
  \<open>req_error\<close> lists what \<^verbatim>\<open>session.get\<close> itself raises, all of them subclasses of
  \<^verbatim>\<open>requests.exceptions.RequestException\<close>. \<^verbatim>\<open>HTTPError\<close> is what
  \<^verbatim>\<open>raise_for_status\<close> raises. \<^verbatim>\<open>response.json()\<close> raises
  \<^verbatim>\<open>requests.exceptions.JSONDecodeError\<close> (requests 2.27 and later), which is a
  \<^verbatim>\<open>RequestException\<close> and a \<^verbatim>\<open>json.JSONDecodeError\<close> at once, or the plain
  \<^verbatim>\<open>json.JSONDecodeError\<close> (earlier versions). \<^verbatim>\<open>UnicodeEncodeError\<close> is what
  \<^verbatim>\<open>print\<close> raises for a text the console cannot encode, and \<^verbatim>\<open>RecursionError\<close>
  what decoding a body nested too deeply raises.
\<close>

datatype req_error = ConnectionError | Timeout | TooManyRedirects

datatype json_error = Requests_JSONDecodeError | Stdlib_JSONDecodeError

datatype exn =
    ValueError
  | TypeError
  | OverflowError
  | AttributeError
  | ZeroDivisionError
  | UnicodeEncodeError
  | RecursionError
  | RequestException req_error
  | HTTPError nat
  | JSONDecodeError json_error

fun is_RequestException :: "exn \<Rightarrow> bool" where
  "is_RequestException (RequestException _) = True"
| "is_RequestException (HTTPError _) = True"
| "is_RequestException (JSONDecodeError Requests_JSONDecodeError) = True"
| "is_RequestException _ = False"

fun is_JSONDecodeError :: "exn \<Rightarrow> bool" where
  "is_JSONDecodeError (JSONDecodeError _) = True"
| "is_JSONDecodeError _ = False"

text \<open>
  A Python float is an IEEE-754 binary64 value. \<open>Finite neg m e\<close> stands for
  \<open>(-1)^neg * m * 2^e\<close> with \<open>0 \<le> m\<close>; a value produced by the model always
  fits the format (\<open>m \<le> 2^53\<close>, \<open>-1074 \<le> e\<close>, magnitude below \<open>2^1024\<close>).
\<close>

datatype pyfloat = Finite bool int int | Inf bool | NaN

text \<open>
  What \<^verbatim>\<open>json.loads\<close> can return. A \<^verbatim>\<open>str\<close> whose code points are all below 256
  is a \<open>JStr\<close>, one \<open>char\<close> for each code point; a \<^verbatim>\<open>str\<close> with a code point
  of 256 or more is a \<open>JUni\<close>, the list of its code points (so \<^verbatim>\<open>"\ud800"\<close>, which
  \<^verbatim>\<open>json.loads\<close> decodes to a lone surrogate, is \<open>JUni [0xD800]\<close>). A JSON object
  becomes a dict, modelled as an association list read with \<open>map_of\<close>; it lists the
  keys with code points below 256, the only ones the script looks up.
\<close>

datatype json =
    JNull
  | JBool bool
  | JInt int
  | JFloat pyfloat
  | JStr string
  | JUni "int list"
  | JArr "json list"
  | JObj "(string \<times> json) list"

text \<open>
  \<^verbatim>\<open>print\<close> writes to a UTF-8 console, Python's default, which encodes every text
  but one that holds a surrogate code point: for that it raises
  \<^verbatim>\<open>UnicodeEncodeError\<close>. An f-string interpolates a \<^verbatim>\<open>str\<close> as it is and any
  other value, a list or a dict too, through its \<^verbatim>\<open>repr\<close>, which escapes surrogates.
  So a line that interpolates the value \<open>v\<close> cannot be printed exactly when \<open>v\<close> is a
  \<^verbatim>\<open>str\<close> with a surrogate.
\<close>

definition is_surrogate :: "int \<Rightarrow> bool" where
  "is_surrogate c = (0xD800 \<le> c \<and> c \<le> 0xDFFF)"

definition unprintable :: "json \<Rightarrow> bool" where
  "unprintable v = (case v of JUni cps \<Rightarrow> list_ex is_surrogate cps | _ \<Rightarrow> False)"

section \<open>The built-in \<^verbatim>\<open>int()\<close>\<close>

text \<open>
  \<^verbatim>\<open>int(s)\<close> for a string (base 10): leading and trailing whitespace is skipped,
  one sign is allowed, then digits follow, where single underscores may stand between
  two digits. Anything else raises \<^verbatim>\<open>ValueError\<close>, and so does a literal of more
  than 4300 digits (the default \<^verbatim>\<open>sys.get_int_max_str_digits()\<close> of CPython 3.11
  and later). A \<open>char\<close> stands for a code point below 256; among these \<^verbatim>\<open>int()\<close>
  takes as whitespace the space, the controls 9 to 13, and the code points 0x85 and
  0xA0, and as digits \<^verbatim>\<open>0\<close> to \<^verbatim>\<open>9\<close> only.
\<close>

definition is_space :: "char \<Rightarrow> bool" where
  "is_space c =
     (c = CHR 0x20 \<or> c = CHR 0x09 \<or> c = CHR 0x0A \<or> c = CHR 0x0B \<or> c = CHR 0x0C \<or> c = CHR 0x0D \<or>
      c = CHR 0x85 \<or> c = CHR 0xA0)"

definition is_digit :: "char \<Rightarrow> bool" where
  "is_digit c = (48 \<le> (of_char c :: nat) \<and> (of_char c :: nat) \<le> 57)"

definition digit_val :: "char \<Rightarrow> int" where
  "digit_val c = int (of_char c) - 48"

definition max_str_digits :: nat where
  "max_str_digits = 4300"

text \<open>
  \<open>scan_digits prev_us acc cnt s\<close> reads the run of digits and underscores at the
  front of \<open>s\<close>: \<open>prev_us\<close> tells that the previous character was an underscore,
  \<open>acc\<close> is the value read so far and \<open>cnt\<close> the number of digits. It fails on
  two underscores in a row and on an underscore that ends the run.
\<close>

fun scan_digits :: "bool \<Rightarrow> int \<Rightarrow> nat \<Rightarrow> string \<Rightarrow> (int \<times> nat \<times> string) option" where
  "scan_digits prev_us acc cnt [] = (if prev_us then None else Some (acc, cnt, []))"
| "scan_digits prev_us acc cnt (c # cs) =
     (if is_digit c then scan_digits False (10 * acc + digit_val c) (Suc cnt) cs
      else if c = CHR ''_'' then (if prev_us then None else scan_digits True acc cnt cs)
      else if prev_us then None
      else Some (acc, cnt, c # cs))"

definition int_of_str :: "string \<Rightarrow> exn + int" where
  "int_of_str s =
     (let s1 = dropWhile is_space s;
          neg = (s1 \<noteq> [] \<and> hd s1 = CHR ''-'');
          s2 = (if s1 \<noteq> [] \<and> (hd s1 = CHR ''-'' \<or> hd s1 = CHR ''+'') then tl s1 else s1)
      in if s2 \<noteq> [] \<and> hd s2 = CHR ''_'' then Inl ValueError
         else (case scan_digits False 0 0 s2 of
                 None \<Rightarrow> Inl ValueError
               | Some (v, cnt, rest) \<Rightarrow>
                   if cnt = 0 then Inl ValueError
                   else if max_str_digits < cnt then Inl ValueError
                   else if dropWhile is_space rest \<noteq> [] then Inl ValueError
                   else Inr (if neg then - v else v)))"

text \<open>
  \<^verbatim>\<open>int(s)\<close> for a \<^verbatim>\<open>str\<close> with code points from 256 on: CPython first turns
  every code point from 127 on into ASCII, a Unicode space into a space, a Unicode
  decimal digit into its ASCII digit and anything else into \<^verbatim>\<open>?\<close>, and then reads
  the result as above. The decimal digits come in runs of ten; \<open>decimal_zeros\<close> lists
  the zero of each run (Unicode 14, as in CPython 3.11).
\<close>

definition decimal_zeros :: "int list" where
  "decimal_zeros =
     [0x30, 0x660, 0x6F0, 0x7C0, 0x966, 0x9E6, 0xA66, 0xAE6,
      0xB66, 0xBE6, 0xC66, 0xCE6, 0xD66, 0xDE6, 0xE50, 0xED0,
      0xF20, 0x1040, 0x1090, 0x17E0, 0x1810, 0x1946, 0x19D0, 0x1A80,
      0x1A90, 0x1B50, 0x1BB0, 0x1C40, 0x1C50, 0xA620, 0xA8D0, 0xA900,
      0xA9D0, 0xA9F0, 0xAA50, 0xABF0, 0xFF10, 0x104A0, 0x10D30, 0x11066,
      0x110F0, 0x11136, 0x111D0, 0x112F0, 0x11450, 0x114D0, 0x11650, 0x116C0,
      0x11730, 0x118E0, 0x11950, 0x11C50, 0x11D50, 0x11DA0, 0x16A60, 0x16AC0,
      0x16B50, 0x1D7CE, 0x1D7D8, 0x1D7E2, 0x1D7EC, 0x1D7F6, 0x1E140, 0x1E2F0,
      0x1E950, 0x1FBF0]"

definition unicode_decimal :: "int \<Rightarrow> int option" where
  "unicode_decimal c =
     (case filter (\<lambda>z. z \<le> c \<and> c < z + 10) decimal_zeros of
        [] \<Rightarrow> None
      | z # _ \<Rightarrow> Some (c - z))"

definition unicode_space :: "int \<Rightarrow> bool" where
  "unicode_space c =
     (c = 0x85 \<or> c = 0xA0 \<or> c = 0x1680 \<or> (0x2000 \<le> c \<and> c \<le> 0x200A) \<or> c = 0x2028 \<or>
      c = 0x2029 \<or> c = 0x202F \<or> c = 0x205F \<or> c = 0x3000)"

definition ascii_of :: "int \<Rightarrow> char" where
  "ascii_of c =
     (if c < 127 then char_of c
      else if unicode_space c then CHR '' ''
      else (case unicode_decimal c of Some d \<Rightarrow> char_of (48 + d) | None \<Rightarrow> CHR ''?''))"

definition int_of_code_points :: "int list \<Rightarrow> exn + int" where
  "int_of_code_points cps = int_of_str (map ascii_of cps)"

text \<open>
  \<^verbatim>\<open>int(x)\<close> for a float truncates towards zero; an infinity raises
  \<^verbatim>\<open>OverflowError\<close> and a NaN \<^verbatim>\<open>ValueError\<close>.
\<close>

definition int_of_float :: "pyfloat \<Rightarrow> exn + int" where
  "int_of_float x =
     (case x of
        Finite neg m e \<Rightarrow>
          (let mag = (if 0 \<le> e then m * 2 ^ nat e else m div 2 ^ nat (- e))
           in Inr (if neg then - mag else mag))
      | Inf _ \<Rightarrow> Inl OverflowError
      | NaN \<Rightarrow> Inl ValueError)"

text \<open>\<^verbatim>\<open>int(x)\<close> for any decoded value; \<^verbatim>\<open>None\<close>, lists and dicts raise \<^verbatim>\<open>TypeError\<close>.\<close>

definition py_int :: "json \<Rightarrow> exn + int" where
  "py_int x =
     (case x of
        JStr s \<Rightarrow> int_of_str s
      | JUni cps \<Rightarrow> int_of_code_points cps
      | JInt n \<Rightarrow> Inr n
      | JBool b \<Rightarrow> Inr (if b then 1 else 0)
      | JFloat f \<Rightarrow> int_of_float f
      | JNull \<Rightarrow> Inl TypeError
      | JArr _ \<Rightarrow> Inl TypeError
      | JObj _ \<Rightarrow> Inl TypeError)"

section \<open>True division of integers and the format \<^verbatim>\<open>.6f\<close>\<close>

text \<open>
  \<open>round_half_even num den\<close> is the integer nearest to \<open>num / den\<close> (for
  \<open>0 \<le> num\<close>, \<open>0 < den\<close>), a tie going to the even neighbour.
\<close>

definition round_half_even :: "int \<Rightarrow> int \<Rightarrow> int" where
  "round_half_even num den =
     (let q = num div den; r = num mod den
      in if 2 * r < den then q
         else if den < 2 * r then q + 1
         else if even q then q else q + 1)"

text \<open>\<^verbatim>\<open>n.bit_length()\<close> of a non-negative integer.\<close>

function bit_length :: "int \<Rightarrow> nat" where
  "bit_length n = (if n \<le> 0 then 0 else Suc (bit_length (n div 2)))"
  by pat_completeness auto
termination
  by (relation "measure nat") auto

declare bit_length.simps [simp del]

text \<open>
  \<open>floor_log2 x y\<close> is the integer \<open>L\<close> with \<open>2^L \<le> x / y < 2^(L+1)\<close>, for
  positive \<open>x\<close> and \<open>y\<close>: the difference of the bit lengths, less one when the
  quotient is below that power of two.
\<close>

definition floor_log2 :: "int \<Rightarrow> int \<Rightarrow> int" where
  "floor_log2 x y =
     (let k = int (bit_length x) - int (bit_length y)
      in if (if 0 \<le> k then y * 2 ^ nat k \<le> x else y \<le> x * 2 ^ nat (- k)) then k else k - 1)"

text \<open>
  \<^verbatim>\<open>a / b\<close> for two Python ints is correctly rounded: the binary64 value nearest to
  the exact quotient, ties to even. The significand has 53 bits, the exponent of the
  last place is at least \<open>-1074\<close>, and a quotient that rounds to \<open>2^1024\<close> or more
  raises \<^verbatim>\<open>OverflowError\<close> (``integer division result too large for a float'').
\<close>

definition int_true_div :: "int \<Rightarrow> int \<Rightarrow> exn + pyfloat" where
  "int_true_div a b =
     (if b = 0 then Inl ZeroDivisionError
      else
        let neg = ((a < 0) \<noteq> (b < 0)); x = \<bar>a\<bar>; y = \<bar>b\<bar>
        in if x = 0 then Inr (Finite neg 0 0)
           else
             let e = max (floor_log2 x y - 52) (- 1074);
                 m = (if 0 \<le> e then round_half_even x (y * 2 ^ nat e)
                      else round_half_even (x * 2 ^ nat (- e)) y)
             in if 971 < e \<or> (e = 971 \<and> m = 2 ^ 53) then Inl OverflowError
                else Inr (Finite neg m e))"

text \<open>
  Decimal digits of a non-negative integer, and a string padded with zeros on the left.
\<close>

function dec_digits :: "int \<Rightarrow> string" where
  "dec_digits n =
     (if n < 10 then [char_of (48 + n)] else dec_digits (n div 10) @ [char_of (48 + n mod 10)])"
  by pat_completeness auto
termination
  by (relation "measure nat") auto

declare dec_digits.simps [simp del]

definition zero_pad :: "nat \<Rightarrow> string \<Rightarrow> string" where
  "zero_pad w s = replicate (w - length s) CHR ''0'' @ s"

text \<open>
  \<open>fixed6 neg N\<close> writes \<open>N\<close> millionths: the integer part, a point and exactly six
  fractional digits, after a minus sign when \<open>neg\<close> holds.
\<close>

definition fixed6 :: "bool \<Rightarrow> int \<Rightarrow> string" where
  "fixed6 neg N =
     (if neg then ''-'' else '''') @ dec_digits (N div 1000000) @ ''.'' @
     zero_pad 6 (dec_digits (N mod 1000000))"

text \<open>
  \<open>units6 m e\<close> is \<open>m * 2^e\<close> in millionths, rounded to the nearest integer, ties to
  even: the digits \<^verbatim>\<open>format(x, '.6f')\<close> prints are those of the float's exact value,
  correctly rounded.
\<close>

definition units6 :: "int \<Rightarrow> int \<Rightarrow> int" where
  "units6 m e =
     (if 0 \<le> e then m * 1000000 * 2 ^ nat e
      else round_half_even (m * 1000000) (2 ^ nat (- e)))"

definition format_6f :: "pyfloat \<Rightarrow> string" where
  "format_6f x =
     (case x of
        Finite neg m e \<Rightarrow> fixed6 neg (units6 m e)
      | Inf neg \<Rightarrow> (if neg then ''-inf'' else ''inf'')
      | NaN \<Rightarrow> ''nan'')"

section \<open>The formatters\<close>

text \<open>
  \<^verbatim>\<open>format_balance(balance_wei, decimals)\<close>: the body of the \<^verbatim>\<open>try\<close> is
  \<open>format_balance_body\<close>; the handler turns \<^verbatim>\<open>ValueError\<close> and \<^verbatim>\<open>TypeError\<close>
  into the marker string, and every other exception leaves the function. The argument
  is any decoded value (\<^verbatim>\<open>main\<close> passes what the response holds); \<open>decimals\<close> is a
  natural number, as in every call of the script. The body raises no exception of a
  subclass of the two that the handler names.
\<close>

definition format_balance_body :: "json \<Rightarrow> nat \<Rightarrow> exn + string" where
  "format_balance_body balance_wei decimals =
     (case py_int balance_wei of
        Inl ex \<Rightarrow> Inl ex
      | Inr n \<Rightarrow>
          (case int_true_div n (10 ^ decimals) of
             Inl ex \<Rightarrow> Inl ex
           | Inr balance \<Rightarrow> Inr (format_6f balance)))"

definition format_balance :: "json \<Rightarrow> nat \<Rightarrow> exn + string" where
  "format_balance balance_wei decimals =
     (case format_balance_body balance_wei decimals of
        Inl ex \<Rightarrow> (if ex = ValueError \<or> ex = TypeError then Inr ''Invalid balance'' else Inl ex)
      | Inr s \<Rightarrow> Inr s)"

text \<open>
  \<^verbatim>\<open>str(v)\<close> inside an f-string: a \<^verbatim>\<open>str\<close> is interpolated as it is. How Python
  writes any other value (a number, \<^verbatim>\<open>None\<close>, a list, a dict) is the parameter
  \<open>render\<close>; so is the text that stands for a \<open>JUni\<close>, whose code points the
  \<open>char\<close>s of the model's texts cannot hold.
\<close>

type_synonym dict = "(string \<times> json) list"

definition py_str :: "(json \<Rightarrow> string) \<Rightarrow> json \<Rightarrow> string" where
  "py_str render v = (case v of JStr s \<Rightarrow> s | _ \<Rightarrow> render v)"

text \<open>\<^verbatim>\<open>d.get(key, default)\<close> on a dict.\<close>

definition get_default :: "dict \<Rightarrow> string \<Rightarrow> json \<Rightarrow> json" where
  "get_default d k dflt = (case map_of d k of None \<Rightarrow> dflt | Some v \<Rightarrow> v)"

text \<open>\<^verbatim>\<open>"\n".join(lines)\<close>.\<close>

fun join_lines :: "string list \<Rightarrow> string" where
  "join_lines [] = []"
| "join_lines [l] = l"
| "join_lines (l # ls) = l @ [CHR 0x0A] @ join_lines ls"

text \<open>
  \<^verbatim>\<open>format_gas_prices(data)\<close>, for a dict \<open>data\<close> as the signature says.
  \<open>gas_price_lines render result\<close> is the list \<^verbatim>\<open>lines\<close> when it is joined:
  the heading and the four fields, and the base-fee line when
  \<^verbatim>\<open>result.get('suggestBaseFee')\<close> is not \<^verbatim>\<open>None\<close>. The first \<^verbatim>\<open>result.get\<close> raises
  \<^verbatim>\<open>AttributeError\<close> when \<^verbatim>\<open>data["result"]\<close> is not a dict.
\<close>

definition gas_price_lines :: "(json \<Rightarrow> string) \<Rightarrow> dict \<Rightarrow> string list" where
  "gas_price_lines render result =
     (let lines =
        [[CHR 0x0A] @ ''=== Current Gas Prices (Gwei) ==='',
         ''Safe Gas Price:    '' @ py_str render (get_default result ''SafeGasPrice'' (JStr ''N/A'')) @ '' Gwei'',
         ''Propose Gas Price: '' @ py_str render (get_default result ''ProposeGasPrice'' (JStr ''N/A'')) @ '' Gwei'',
         ''Fast Gas Price:    '' @ py_str render (get_default result ''FastGasPrice'' (JStr ''N/A'')) @ '' Gwei'',
         ''Last Block:        '' @ py_str render (get_default result ''LastBlock'' (JStr ''N/A''))];
          suggest_base_fee = get_default result ''suggestBaseFee'' JNull
      in if suggest_base_fee \<noteq> JNull
         then lines @ [''Suggested Base Fee: '' @ py_str render suggest_base_fee @ '' Gwei'']
         else lines)"

definition format_gas_prices :: "(json \<Rightarrow> string) \<Rightarrow> dict \<Rightarrow> exn + string" where
  "format_gas_prices render data =
     (if data = [] \<or> map_of data ''result'' = None then Inr ''No gas price data available''
      else
        (case the (map_of data ''result'') of
           JObj result \<Rightarrow> Inr (join_lines (gas_price_lines render result))
         | _ \<Rightarrow> Inl AttributeError))"

text \<open>
  The report cannot be printed when one of the values it interpolates cannot: those of
  the five fields, where \<^verbatim>\<open>result\<close> is a dict. The other texts
  \<^verbatim>\<open>format_gas_prices\<close> returns are fixed.
\<close>

definition gas_report_unprintable :: "dict \<Rightarrow> bool" where
  "gas_report_unprintable data =
     (case map_of data ''result'' of
        Some (JObj result) \<Rightarrow>
          list_ex (\<lambda>k. unprintable (get_default result k JNull))
            [''SafeGasPrice'', ''ProposeGasPrice'', ''FastGasPrice'', ''LastBlock'', ''suggestBaseFee'']
      | _ \<Rightarrow> False)"

text \<open>
  A rendering for examples: it writes \<^verbatim>\<open>None\<close>, booleans and integers as Python
  does, and a mark for the values whose text the model leaves open.
\<close>

definition render_atoms :: "json \<Rightarrow> string" where
  "render_atoms v =
     (case v of
        JNull \<Rightarrow> ''None''
      | JBool b \<Rightarrow> (if b then ''True'' else ''False'')
      | JInt i \<Rightarrow> (if i < 0 then ''-'' @ dec_digits (- i) else dec_digits i)
      | _ \<Rightarrow> ''?'')"

section \<open>The client\<close>

text \<open>
  A query parameter is a string or an integer (\<^verbatim>\<open>chainid\<close>). The part of
  \<^verbatim>\<open>requests.Session\<close> the script touches: the default query parameters, and the
  cookie jar, which \<^verbatim>\<open>session.get\<close> updates from every response.
\<close>

datatype pval = PStr string | PInt int

record session =
  s_params :: "string \<rightharpoonup> pval"
  s_cookies :: "string \<rightharpoonup> string"

record client =
  api_key :: string
  chainid :: int
  base_url :: string
  session :: session

text \<open>The request that goes out: the URL, the merged query parameters and the timeout.\<close>

record request =
  r_url :: string
  r_params :: "string \<rightharpoonup> pval"
  r_timeout :: nat

text \<open>
  What \<^verbatim>\<open>response.json()\<close> raises when it does not return: a JSON decode error for
  a body that is not JSON; \<^verbatim>\<open>ValueError\<close> for a body with an integer of more than
  4300 digits, which \<^verbatim>\<open>int()\<close> refuses; \<^verbatim>\<open>RecursionError\<close> for a body nested too
  deeply.
\<close>

datatype decode_failure = Decode_error json_error | Integer_too_long | Nesting_too_deep

definition decode_exn :: "decode_failure \<Rightarrow> exn" where
  "decode_exn f =
     (case f of
        Decode_error jerr \<Rightarrow> JSONDecodeError jerr
      | Integer_too_long \<Rightarrow> ValueError
      | Nesting_too_deep \<Rightarrow> RecursionError)"

text \<open>
  The response: its status code, the cookies it sets, and what \<^verbatim>\<open>response.json()\<close>
  does with its body (raise or return the decoded value).
\<close>

record response =
  status_code :: nat
  set_cookies :: "(string \<times> string) list"
  json_body :: "decode_failure + json"

text \<open>The network: what \<^verbatim>\<open>session.get\<close> meets for a request.\<close>

type_synonym transport = "request \<Rightarrow> req_error + response"

text \<open>
  Console lines. The last three are the diagnostics of the client,
  \<^verbatim>\<open>API returned error: {v}\<close>, \<^verbatim>\<open>Request failed: {e}\<close> and
  \<^verbatim>\<open>Failed to parse JSON response: {e}\<close>, each with the value its f-string
  interpolates.
\<close>

datatype line =
    Print string
  | Print_api_error json
  | Print_request_failed exn
  | Print_parse_failed exn

text \<open>
  The trace of a run: console output, requests sent, and the calls of the two formatters
  with their arguments.
\<close>

datatype event =
    Out line
  | Sent request
  | Call_format_gas_prices dict
  | Call_format_balance json nat

text \<open>The check mark of the success lines, in UTF-8.\<close>

definition check_mark :: string where
  "check_mark = [CHR 0xE2, CHR 0x9C, CHR 0x93]"

text \<open>\<^verbatim>\<open>EtherscanAPI.__init__\<close>\<close>

definition EtherscanAPI :: "string \<Rightarrow> int \<Rightarrow> client" where
  "EtherscanAPI key cid =
     \<lparr>api_key = key, chainid = cid, base_url = ''https://api.etherscan.io/api'',
      session = \<lparr>s_params = Map.empty(''apikey'' \<mapsto> PStr key, ''chainid'' \<mapsto> PInt cid),
                 s_cookies = Map.empty\<rparr>\<rparr>"

text \<open>
  \<^verbatim>\<open>session.get(url, params=params, timeout=t)\<close>: the request's parameters are the
  session's defaults overridden by the call's, in a new mapping; the session keeps its
  defaults and stores the cookies of the response.
\<close>

definition session_get ::
  "session \<Rightarrow> string \<Rightarrow> (string \<rightharpoonup> pval) \<Rightarrow> nat \<Rightarrow> transport \<Rightarrow> session \<times> request \<times> (req_error + response)" where
  "session_get s u ps t net =
     (let req = \<lparr>r_url = u, r_params = s_params s ++ ps, r_timeout = t\<rparr>
      in (case net req of
            Inl err \<Rightarrow> (s, req, Inl err)
          | Inr resp \<Rightarrow> (s\<lparr>s_cookies := s_cookies s ++ map_of (set_cookies resp)\<rparr>, req, Inr resp)))"

text \<open>\<^verbatim>\<open>response.raise_for_status()\<close> raises for a 4xx or 5xx status code.\<close>

definition raise_for_status :: "response \<Rightarrow> exn + unit" where
  "raise_for_status resp =
     (if 400 \<le> status_code resp \<and> status_code resp < 600 then Inl (HTTPError (status_code resp))
      else Inr ())"

text \<open>
  The three methods have the same body but for the parameters and the success line:
  \<open>api_try\<close> is the \<^verbatim>\<open>try\<close> block after \<^verbatim>\<open>session.get\<close> has returned or raised,
  \<open>api_call\<close> adds the request and the two handlers. \<^verbatim>\<open>data.get\<close> exists on a dict
  only: for any other decoded value it raises \<^verbatim>\<open>AttributeError\<close>. The \<^verbatim>\<open>print\<close> of
  the API's message is inside the \<^verbatim>\<open>try\<close> and raises \<^verbatim>\<open>UnicodeEncodeError\<close>
  for a message that cannot be printed; the success line is fixed text, and the texts
  of the exceptions of \<^verbatim>\<open>requests\<close> and \<^verbatim>\<open>json\<close>, which the handlers print, hold no
  surrogate. A method returns the client after the call, the trace, and its result or
  the exception that leaves it.
\<close>

definition api_try :: "string \<Rightarrow> req_error + response \<Rightarrow> event list \<times> (exn + dict option)" where
  "api_try what got =
     (case got of
        Inl err \<Rightarrow> ([], Inl (RequestException err))
      | Inr resp \<Rightarrow>
          (case raise_for_status resp of
             Inl ex \<Rightarrow> ([], Inl ex)
           | Inr _ \<Rightarrow>
               (case json_body resp of
                  Inl failure \<Rightarrow> ([], Inl (decode_exn failure))
                | Inr data \<Rightarrow>
                    (case data of
                       JObj d \<Rightarrow>
                         if map_of d ''status'' = Some (JStr ''1'')
                         then ([Out (Print (check_mark @ '' '' @ what @ '' fetched successfully''))],
                               Inr (Some d))
                         else if unprintable (get_default d ''message'' (JStr ''Unknown error''))
                         then ([], Inl UnicodeEncodeError)
                         else ([Out (Print_api_error (get_default d ''message'' (JStr ''Unknown error'')))],
                               Inr None)
                     | _ \<Rightarrow> ([], Inl AttributeError)))))"

definition api_call ::
  "client \<Rightarrow> (string \<rightharpoonup> pval) \<Rightarrow> string \<Rightarrow> transport \<Rightarrow> client \<times> event list \<times> (exn + dict option)" where
  "api_call self ps what net =
     (case session_get (session self) (base_url self) ps 10 net of
        (s', req, got) \<Rightarrow>
          (case api_try what got of
             (evs, Inr r) \<Rightarrow> (self\<lparr>session := s'\<rparr>, Sent req # evs, Inr r)
           | (evs, Inl ex) \<Rightarrow>
               if is_RequestException ex
               then (self\<lparr>session := s'\<rparr>, Sent req # evs @ [Out (Print_request_failed ex)], Inr None)
               else if is_JSONDecodeError ex
               then (self\<lparr>session := s'\<rparr>, Sent req # evs @ [Out (Print_parse_failed ex)], Inr None)
               else (self\<lparr>session := s'\<rparr>, Sent req # evs, Inl ex)))"

definition get_gas_prices :: "client \<Rightarrow> transport \<Rightarrow> client \<times> event list \<times> (exn + dict option)" where
  "get_gas_prices self net =
     api_call self
       (Map.empty(''module'' \<mapsto> PStr ''gastracker'', ''action'' \<mapsto> PStr ''gasoracle''))
       ''Gas prices'' net"

definition get_token_balance ::
  "client \<Rightarrow> string \<Rightarrow> string \<Rightarrow> transport \<Rightarrow> client \<times> event list \<times> (exn + dict option)" where
  "get_token_balance self contract_address wallet_address net =
     api_call self
       (Map.empty(''module'' \<mapsto> PStr ''account'', ''action'' \<mapsto> PStr ''tokenbalance'',
          ''contractaddress'' \<mapsto> PStr contract_address, ''address'' \<mapsto> PStr wallet_address,
          ''tag'' \<mapsto> PStr ''latest''))
       ''Token balance'' net"

definition get_eth_balance ::
  "client \<Rightarrow> string \<Rightarrow> transport \<Rightarrow> client \<times> event list \<times> (exn + dict option)" where
  "get_eth_balance self wallet_address net =
     api_call self
       (Map.empty(''module'' \<mapsto> PStr ''account'', ''action'' \<mapsto> PStr ''balance'',
          ''address'' \<mapsto> PStr wallet_address, ''tag'' \<mapsto> PStr ''latest''))
       ''ETH balance'' net"

text \<open>Readers of a method's outcome.\<close>

definition client_after :: "client \<times> event list \<times> (exn + dict option) \<Rightarrow> client" where
  "client_after out = fst out"

definition trace_of :: "client \<times> event list \<times> (exn + dict option) \<Rightarrow> event list" where
  "trace_of out = fst (snd out)"

definition returned :: "client \<times> event list \<times> (exn + dict option) \<Rightarrow> exn + dict option" where
  "returned out = snd (snd out)"

fun sent_requests :: "event list \<Rightarrow> request list" where
  "sent_requests [] = []"
| "sent_requests (Sent r # evs) = r # sent_requests evs"
| "sent_requests (_ # evs) = sent_requests evs"

fun console :: "event list \<Rightarrow> line list" where
  "console [] = []"
| "console (Out l # evs) = l # console evs"
| "console (_ # evs) = console evs"

section \<open>The driver\<close>

text \<open>
  \<^verbatim>\<open>main()\<close> is a sequence of blocks. A block takes the client and returns the client
  after it, its trace, and the exception that ended it, if any; \<open>then_do\<close> runs the
  next block unless an exception is on its way out of \<^verbatim>\<open>main\<close>.
\<close>

type_synonym run = "client \<times> event list \<times> exn option"

definition then_do :: "run \<Rightarrow> (client \<Rightarrow> run) \<Rightarrow> run" where
  "then_do r f =
     (case r of
        (c, evs, Some ex) \<Rightarrow> (c, evs, Some ex)
      | (c, evs, None) \<Rightarrow> (case f c of (c', evs', r') \<Rightarrow> (c', evs @ evs', r')))"

definition prints :: "string list \<Rightarrow> event list" where
  "prints ls = map (\<lambda>l. Out (Print l)) ls"

text \<open>\<^verbatim>\<open>if x:\<close> for an optional dict: \<^verbatim>\<open>None\<close> and the empty dict are false.\<close>

definition truthy :: "dict option \<Rightarrow> bool" where
  "truthy x = (case x of None \<Rightarrow> False | Some d \<Rightarrow> d \<noteq> [])"

definition str_of_int :: "int \<Rightarrow> string" where
  "str_of_int i = (if i < 0 then ''-'' @ dec_digits (- i) else dec_digits i)"

definition usdt_contract :: string where
  "usdt_contract = ''0xdac17f958d2ee523a2206206994597c13d831ec7''"

definition example_wallet :: string where
  "example_wallet = ''0xd8dA6BF26964aF9D7eEd9e03E53415D37aA96045''"

definition banner :: "client \<Rightarrow> run" where
  "banner api =
     (api,
      prints
        [replicate 60 CHR ''='',
         ''Etherscan v2 API Example - Proper chainid Parameter Usage'',
         replicate 60 CHR ''='',
         [CHR 0x0A] @ ''Using chainid: '' @ str_of_int (chainid api) @ '' (Ethereum Mainnet)'',
         [CHR 0x0A] @ ''Note: Replace '' @ [CHR 0x27] @ ''YourApiKeyToken'' @ [CHR 0x27] @
           '' with your actual API key for real usage.'' @ [CHR 0x0A]],
      None)"

text \<open>
  Example 1: \<^verbatim>\<open>gas_data = api.get_gas_prices()\<close>, formatted when it is true. The
  \<^verbatim>\<open>print\<close> of the report stands outside any \<^verbatim>\<open>try\<close>.
\<close>

definition example_gas :: "(json \<Rightarrow> string) \<Rightarrow> transport \<Rightarrow> client \<Rightarrow> run" where
  "example_gas render net api =
     (let head = prints [[CHR 0x0A] @ replicate 60 CHR ''-'', ''Example 1: Fetching Gas Prices'',
                         replicate 60 CHR ''-''];
          out = get_gas_prices api net
      in (case returned out of
            Inl ex \<Rightarrow> (client_after out, head @ trace_of out, Some ex)
          | Inr gas_data \<Rightarrow>
              if truthy gas_data then
                (case format_gas_prices render (the gas_data) of
                   Inl ex \<Rightarrow>
                     (client_after out,
                      head @ trace_of out @ [Call_format_gas_prices (the gas_data)], Some ex)
                 | Inr text \<Rightarrow>
                     if gas_report_unprintable (the gas_data) then
                       (client_after out,
                        head @ trace_of out @ [Call_format_gas_prices (the gas_data)],
                        Some UnicodeEncodeError)
                     else
                       (client_after out,
                        head @ trace_of out @ [Call_format_gas_prices (the gas_data), Out (Print text)],
                        None))
              else (client_after out, head @ trace_of out, None)))"

text \<open>
  The tail the examples 2 and 3 share: \<^verbatim>\<open>balance_wei = data.get("result", "0")\<close>,
  \<^verbatim>\<open>format_balance(balance_wei, decimals=...)\<close> and the line that prints it; what
  \<^verbatim>\<open>format_balance\<close> returns is ASCII, so this line can always be printed.
\<close>

definition show_balance ::
  "client \<times> event list \<times> (exn + dict option) \<Rightarrow> event list \<Rightarrow> nat \<Rightarrow> string \<Rightarrow> string \<Rightarrow> run" where
  "show_balance out head decimals label unit_name =
     (case returned out of
        Inl ex \<Rightarrow> (client_after out, head @ trace_of out, Some ex)
      | Inr data \<Rightarrow>
          if truthy data then
            (let balance_wei = get_default (the data) ''result'' (JStr ''0'')
             in (case format_balance balance_wei decimals of
                   Inl ex \<Rightarrow>
                     (client_after out,
                      head @ trace_of out @ [Call_format_balance balance_wei decimals], Some ex)
                 | Inr balance \<Rightarrow>
                     (client_after out,
                      head @ trace_of out @
                        [Call_format_balance balance_wei decimals,
                         Out (Print ([CHR 0x0A] @ label @ balance @ '' '' @ unit_name))],
                      None)))
          else (client_after out, head @ trace_of out, None))"

text \<open>Example 2: the token balance, with the 6 decimals of USDT.\<close>

definition example_token :: "transport \<Rightarrow> client \<Rightarrow> run" where
  "example_token net api =
     show_balance (get_token_balance api usdt_contract example_wallet net)
       (prints [[CHR 0x0A] @ replicate 60 CHR ''-'', ''Example 2: Fetching Token Balance'',
                replicate 60 CHR ''-'', ''Contract: '' @ usdt_contract,
                ''Wallet:   '' @ example_wallet])
       6 ''Token Balance: '' ''USDT''"

text \<open>Example 3: the ETH balance, with 18 decimals.\<close>

definition example_eth :: "transport \<Rightarrow> client \<Rightarrow> run" where
  "example_eth net api =
     show_balance (get_eth_balance api example_wallet net)
       (prints [[CHR 0x0A] @ replicate 60 CHR ''-'', ''Example 3: Fetching ETH Balance'',
                replicate 60 CHR ''-'', ''Wallet: '' @ example_wallet])
       18 ''ETH Balance: '' ''ETH''"

definition summary :: "client \<Rightarrow> run" where
  "summary api =
     (api,
      prints
        [[CHR 0x0A] @ replicate 60 CHR ''='',
         ''Summary:'',
         replicate 60 CHR ''='',
         check_mark @ '' All API calls include the required '' @ [CHR 0x27] @ ''chainid'' @ [CHR 0x27] @ '' parameter'',
         check_mark @ '' JSON responses are properly parsed and handled'',
         check_mark @ '' Error handling is implemented for network and parsing issues'',
         [CHR 0x0A] @ ''Chain IDs Reference:'',
         ''  - 1: Ethereum Mainnet'',
         ''  - 11155111: Sepolia Testnet'',
         ''  Note: Goerli testnet (chainid: 5) has been deprecated'',
         replicate 60 CHR ''=''],
      None)"

text \<open>
  \<^verbatim>\<open>main()\<close>; \<open>net1\<close>, \<open>net2\<close> and \<open>net3\<close> are the network as the first, second
  and third request meet it.
\<close>

definition main :: "(json \<Rightarrow> string) \<Rightarrow> transport \<Rightarrow> transport \<Rightarrow> transport \<Rightarrow> run" where
  "main render net1 net2 net3 =
     then_do
       (then_do
          (then_do
             (then_do (banner (EtherscanAPI ''YourApiKeyToken'' 1)) (example_gas render net1))
             (example_token net2))
          (example_eth net3))
       summary"

text \<open>
  A caller that issues any sequence of fetch operations on one client, going on after a
  call whatever it returned or raised; the client after the last call.
\<close>

datatype fetch = Gas_prices | Token_balance string string | Eth_balance string

definition do_fetch :: "client \<Rightarrow> fetch \<Rightarrow> transport \<Rightarrow> client \<times> event list \<times> (exn + dict option)" where
  "do_fetch self f net =
     (case f of
        Gas_prices \<Rightarrow> get_gas_prices self net
      | Token_balance contract_address wallet_address \<Rightarrow>
          get_token_balance self contract_address wallet_address net
      | Eth_balance wallet_address \<Rightarrow> get_eth_balance self wallet_address net)"

fun after_calls :: "client \<Rightarrow> (fetch \<times> transport) list \<Rightarrow> client" where
  "after_calls self [] = self"
| "after_calls self ((f, net) # calls) = after_calls (client_after (do_fetch self f net)) calls"

text \<open>Two networks for examples: one answers every request with the same response, one fails.\<close>

definition answering :: "response \<Rightarrow> transport" where
  "answering resp req = Inr resp"

definition failing :: "req_error \<Rightarrow> transport" where
  "failing err req = Inl err"

definition json_response :: "nat \<Rightarrow> json \<Rightarrow> response" where
  "json_response code v = \<lparr>status_code = code, set_cookies = [], json_body = Inr v\<rparr>"

text \<open>Readers of a run of the driver, and the formatter calls a trace records.\<close>

definition run_client :: "run \<Rightarrow> client" where
  "run_client r = fst r"

definition run_trace :: "run \<Rightarrow> event list" where
  "run_trace r = fst (snd r)"

definition run_raised :: "run \<Rightarrow> exn option" where
  "run_raised r = snd (snd r)"

fun gas_format_calls :: "event list \<Rightarrow> dict list" where
  "gas_format_calls [] = []"
| "gas_format_calls (Call_format_gas_prices d # evs) = d # gas_format_calls evs"
| "gas_format_calls (_ # evs) = gas_format_calls evs"

fun balance_format_calls :: "event list \<Rightarrow> (json \<times> nat) list" where
  "balance_format_calls [] = []"
| "balance_format_calls (Call_format_balance v decimals # evs) = (v, decimals) # balance_format_calls evs"
| "balance_format_calls (_ # evs) = balance_format_calls evs"

text \<open>
  For comparison with the code, the reading of the specification: the exact value of
  \<open>n / 10^decimals\<close> written with six fractional digits. \<open>exact_fixed6 False\<close>
  cuts the digits after the sixth, \<open>exact_fixed6 True\<close> rounds them up (in
  magnitude); every rule for rounding the exact value gives one of the two.
\<close>

definition exact_fixed6 :: "bool \<Rightarrow> int \<Rightarrow> nat \<Rightarrow> string" where
  "exact_fixed6 up n decimals =
     fixed6 (n < 0) (\<bar>n\<bar> * 1000000 div 10 ^ decimals + (if up then 1 else 0))"

section \<open>Facts about the formatters\<close>

lemma int_of_str_error: "int_of_str s = Inl ex \<Longrightarrow> ex = ValueError"
  by (auto simp: int_of_str_def Let_def split: if_splits option.splits prod.splits)

text \<open>
  Claim C5. \<^verbatim>\<open>format_balance("123456789000000000000", 18)\<close> returns
  \<^verbatim>\<open>"123.456789"\<close> and \<^verbatim>\<open>format_balance("1000000", 6)\<close> returns \<^verbatim>\<open>"1.000000"\<close>.
\<close>

theorem format_balance_examples:
  "format_balance (JStr ''123456789000000000000'') 18 = Inr ''123.456789'' \<and>
   format_balance (JStr ''1000000'') 6 = Inr ''1.000000''"
  by code_simp

text \<open>
  Claim C6. A string that \<^verbatim>\<open>int()\<close> does not accept as a decimal integer (one for
  which \<open>int_of_str\<close> raises) makes \<^verbatim>\<open>format_balance\<close> return the marker
  \<^verbatim>\<open>"Invalid balance"\<close>; the result is a value (\<open>Inr\<close>), so nothing is raised. This
  holds for every number of decimals.
\<close>

theorem format_balance_invalid_input:
  "int_of_str s = Inl ex \<Longrightarrow> format_balance (JStr s) decimals = Inr ''Invalid balance''"
  using int_of_str_error[of s ex]
  by (simp add: format_balance_def format_balance_body_def py_int_def)

theorem format_balance_invalid_input_witness:
  "int_of_str ''not-a-number'' = Inl ValueError \<and>
   format_balance (JStr ''not-a-number'') 18 = Inr ''Invalid balance''"
proof -
  have bad: "int_of_str ''not-a-number'' = Inl ValueError"
    by code_simp
  show ?thesis
    using bad format_balance_invalid_input[OF bad, of 18] by simp
qed

section \<open>Facts about the client\<close>

lemma api_call_frame:
  "api_key (client_after (api_call self ps what net)) = api_key self"
  "chainid (client_after (api_call self ps what net)) = chainid self"
  "base_url (client_after (api_call self ps what net)) = base_url self"
  "s_params (session (client_after (api_call self ps what net))) = s_params (session self)"
  by (auto simp: api_call_def client_after_def session_get_def Let_def split: sum.splits prod.splits)

lemma do_fetch_frame:
  "api_key (client_after (do_fetch self f net)) = api_key self"
  "chainid (client_after (do_fetch self f net)) = chainid self"
  "base_url (client_after (do_fetch self f net)) = base_url self"
  "s_params (session (client_after (do_fetch self f net))) = s_params (session self)"
  by (cases f; simp add: do_fetch_def get_gas_prices_def get_token_balance_def
      get_eth_balance_def api_call_frame)+

lemma after_calls_frame:
  "api_key (after_calls self calls) = api_key self \<and>
   chainid (after_calls self calls) = chainid self \<and>
   base_url (after_calls self calls) = base_url self \<and>
   s_params (session (after_calls self calls)) = s_params (session self)"
proof (induction calls arbitrary: self)
  case Nil
  show ?case by simp
next
  case (Cons c calls)
  obtain f net where c: "c = (f, net)" by (cases c)
  show ?case
    unfolding c using Cons.IH[of "client_after (do_fetch self f net)"]
    by (simp add: do_fetch_frame)
qed

lemma api_call_sent:
  "sent_requests (trace_of (api_call self ps what net)) =
     [\<lparr>r_url = base_url self, r_params = s_params (session self) ++ ps, r_timeout = 10\<rparr>]"
  by (auto simp: api_call_def trace_of_def session_get_def api_try_def Let_def
      split: sum.splits prod.splits json.splits if_splits)

text \<open>
  Claim C10. After any sequence of fetch operations on a client, whatever the network
  answered and whatever the calls returned or raised, \<open>api_key\<close>, \<open>chainid\<close>,
  \<open>base_url\<close> and the session's default parameters are what they were before; for a
  client built by \<open>EtherscanAPI key cid\<close> they are the values of the construction.
  (The session's cookie jar is the part of the client a call may change.)
\<close>

theorem fetch_keeps_configuration:
  "api_key (after_calls self calls) = api_key self \<and>
   chainid (after_calls self calls) = chainid self \<and>
   base_url (after_calls self calls) = base_url self \<and>
   s_params (session (after_calls self calls)) = s_params (session self) \<and>
   api_key (after_calls (EtherscanAPI key cid) calls) = key \<and>
   chainid (after_calls (EtherscanAPI key cid) calls) = cid \<and>
   base_url (after_calls (EtherscanAPI key cid) calls) = ''https://api.etherscan.io/api'' \<and>
   s_params (session (after_calls (EtherscanAPI key cid) calls)) =
     Map.empty(''apikey'' \<mapsto> PStr key, ''chainid'' \<mapsto> PInt cid)"
  using after_calls_frame[of self calls] after_calls_frame[of "EtherscanAPI key cid" calls]
  by (simp add: EtherscanAPI_def)


lemma do_fetch_sent:
  "sent_requests (trace_of (do_fetch self f net)) =
     [\<lparr>r_url = base_url self,
       r_params = s_params (session self) ++
         (case f of
            Gas_prices \<Rightarrow>
              Map.empty(''module'' \<mapsto> PStr ''gastracker'', ''action'' \<mapsto> PStr ''gasoracle'')
          | Token_balance contract_address wallet_address \<Rightarrow>
              Map.empty(''module'' \<mapsto> PStr ''account'', ''action'' \<mapsto> PStr ''tokenbalance'',
                ''contractaddress'' \<mapsto> PStr contract_address,
                ''address'' \<mapsto> PStr wallet_address, ''tag'' \<mapsto> PStr ''latest'')
          | Eth_balance wallet_address \<Rightarrow>
              Map.empty(''module'' \<mapsto> PStr ''account'', ''action'' \<mapsto> PStr ''balance'',
                ''address'' \<mapsto> PStr wallet_address, ''tag'' \<mapsto> PStr ''latest'')),
       r_timeout = 10\<rparr>]"
  by (cases f) (simp_all add: do_fetch_def get_gas_prices_def get_token_balance_def
      get_eth_balance_def api_call_sent)

text \<open>
  Claim C4. Take a client built with \<open>key\<close> and \<open>cid\<close>, after any earlier calls. Each
  of the three operations, with any arguments and any network, sends one request, and
  its parameter map has \<^verbatim>\<open>apikey\<close> equal to \<open>key\<close> and \<^verbatim>\<open>chainid\<close> equal to \<open>cid\<close>.
\<close>

theorem requests_carry_apikey_and_chainid:
  "map (\<lambda>r. (r_params r ''apikey'', r_params r ''chainid''))
     (sent_requests (trace_of (do_fetch (after_calls (EtherscanAPI key cid) calls) f net))) =
   [(Some (PStr key), Some (PInt cid))]"
  using after_calls_frame[of "EtherscanAPI key cid" calls]
  by (cases f) (simp_all add: do_fetch_sent EtherscanAPI_def map_add_def)

text \<open>
  Claim C8. On a client built with \<open>key\<close> and \<open>cid\<close> (after any earlier calls) each
  operation sends exactly one request, to the base URL, with timeout 10, whose
  parameters are the two defaults and the operation's own: \<^verbatim>\<open>module\<close> and \<^verbatim>\<open>action\<close>
  for the gas oracle; \<^verbatim>\<open>module\<close>, \<^verbatim>\<open>action\<close>, \<^verbatim>\<open>contractaddress\<close>, \<^verbatim>\<open>address\<close> and
  \<^verbatim>\<open>tag\<close> for the token balance; \<^verbatim>\<open>module\<close>, \<^verbatim>\<open>action\<close>, \<^verbatim>\<open>address\<close> and \<^verbatim>\<open>tag\<close>
  for the ETH balance.
\<close>

theorem requests_sent_exactly:
  "sent_requests (trace_of (get_gas_prices (after_calls (EtherscanAPI key cid) calls) net)) =
     [\<lparr>r_url = ''https://api.etherscan.io/api'',
       r_params = Map.empty(''apikey'' \<mapsto> PStr key, ''chainid'' \<mapsto> PInt cid,
         ''module'' \<mapsto> PStr ''gastracker'', ''action'' \<mapsto> PStr ''gasoracle''),
       r_timeout = 10\<rparr>] \<and>
   sent_requests (trace_of
       (get_token_balance (after_calls (EtherscanAPI key cid) calls) contract_address wallet_address net)) =
     [\<lparr>r_url = ''https://api.etherscan.io/api'',
       r_params = Map.empty(''apikey'' \<mapsto> PStr key, ''chainid'' \<mapsto> PInt cid,
         ''module'' \<mapsto> PStr ''account'', ''action'' \<mapsto> PStr ''tokenbalance'',
         ''contractaddress'' \<mapsto> PStr contract_address, ''address'' \<mapsto> PStr wallet_address,
         ''tag'' \<mapsto> PStr ''latest''),
       r_timeout = 10\<rparr>] \<and>
   sent_requests (trace_of (get_eth_balance (after_calls (EtherscanAPI key cid) calls) wallet_address net)) =
     [\<lparr>r_url = ''https://api.etherscan.io/api'',
       r_params = Map.empty(''apikey'' \<mapsto> PStr key, ''chainid'' \<mapsto> PInt cid,
         ''module'' \<mapsto> PStr ''account'', ''action'' \<mapsto> PStr ''balance'',
         ''address'' \<mapsto> PStr wallet_address, ''tag'' \<mapsto> PStr ''latest''),
       r_timeout = 10\<rparr>]"
  using after_calls_frame[of "EtherscanAPI key cid" calls]
  by (simp add: get_gas_prices_def get_token_balance_def get_eth_balance_def api_call_sent
      EtherscanAPI_def)

lemma api_call_returned:
  "returned (api_call self ps what net) =
     (case api_try what
             (net \<lparr>r_url = base_url self, r_params = s_params (session self) ++ ps, r_timeout = 10\<rparr>) of
        (evs, Inr r) \<Rightarrow> Inr r
      | (evs, Inl ex) \<Rightarrow>
          if is_RequestException ex \<or> is_JSONDecodeError ex then Inr None else Inl ex)"
  by (auto simp: api_call_def returned_def session_get_def Let_def split: sum.splits prod.splits)

lemma api_call_console:
  "console (trace_of (api_call self ps what net)) =
     (case api_try what
             (net \<lparr>r_url = base_url self, r_params = s_params (session self) ++ ps, r_timeout = 10\<rparr>) of
        (evs, Inr r) \<Rightarrow> console evs
      | (evs, Inl ex) \<Rightarrow>
          if is_RequestException ex then console evs @ [Print_request_failed ex]
          else if is_JSONDecodeError ex then console evs @ [Print_parse_failed ex]
          else console evs)"
proof -
  have app: "console (xs @ [Out l]) = console xs @ [l]" for xs l
    by (induction xs rule: console.induct) simp_all
  show ?thesis
    by (auto simp: api_call_def trace_of_def session_get_def Let_def app
        split: sum.splits prod.splits)
qed

lemma do_fetch_api_call:
  "\<exists>ps what. do_fetch self f net = api_call self ps what net"
  by (cases f) (auto simp: do_fetch_def get_gas_prices_def get_token_balance_def get_eth_balance_def)

lemma api_call_status:
  assumes sent: "sent_requests (trace_of (api_call self ps what net)) = [req]"
  shows "(\<forall>resp d. net req = Inr resp \<and> \<not> (400 \<le> status_code resp \<and> status_code resp < 600) \<and>
            json_body resp = Inr (JObj d) \<longrightarrow>
            (map_of d ''status'' \<noteq> Some (JStr ''1'') \<and>
             \<not> unprintable (get_default d ''message'' (JStr ''Unknown error'')) \<longrightarrow>
               returned (api_call self ps what net) = Inr None \<and>
               console (trace_of (api_call self ps what net)) =
                 [Print_api_error (get_default d ''message'' (JStr ''Unknown error''))]) \<and>
            (map_of d ''status'' \<noteq> Some (JStr ''1'') \<and>
             unprintable (get_default d ''message'' (JStr ''Unknown error'')) \<longrightarrow>
               returned (api_call self ps what net) = Inl UnicodeEncodeError) \<and>
            (map_of d ''status'' = Some (JStr ''1'') \<longrightarrow>
               returned (api_call self ps what net) = Inr (Some d))) \<and>
         (\<forall>d. returned (api_call self ps what net) = Inr (Some d) \<longrightarrow>
            (\<exists>resp. net req = Inr resp \<and> json_body resp = Inr (JObj d) \<and>
               map_of d ''status'' = Some (JStr ''1'')))"
proof -
  have req: "req = \<lparr>r_url = base_url self, r_params = s_params (session self) ++ ps, r_timeout = 10\<rparr>"
    using sent by (simp add: api_call_sent)
  show ?thesis
    unfolding api_call_returned api_call_console req[symmetric]
    by (auto simp: api_try_def raise_for_status_def decode_exn_def
        split: sum.splits json.splits if_splits decode_failure.splits)
qed

lemma api_call_failures:
  assumes sent: "sent_requests (trace_of (api_call self ps what net)) = [req]"
  shows "((\<exists>err. net req = Inl err) \<or>
          (\<exists>resp. net req = Inr resp \<and>
             (400 \<le> status_code resp \<and> status_code resp < 600 \<or>
              (\<exists>jerr. json_body resp = Inl (Decode_error jerr)))) \<longrightarrow>
          returned (api_call self ps what net) = Inr None \<and>
          length (console (trace_of (api_call self ps what net))) = 1) \<and>
         (\<forall>ex. returned (api_call self ps what net) = Inl ex \<longrightarrow>
            \<not> is_RequestException ex \<and> \<not> is_JSONDecodeError ex)"
proof -
  have req: "req = \<lparr>r_url = base_url self, r_params = s_params (session self) ++ ps, r_timeout = 10\<rparr>"
    using sent by (simp add: api_call_sent)
  have caught: "is_RequestException (JSONDecodeError j) \<or> is_JSONDecodeError (JSONDecodeError j)" for j
    by simp
  show ?thesis
    unfolding api_call_returned api_call_console req[symmetric]
    by (auto simp: api_try_def raise_for_status_def decode_exn_def
        split: sum.splits json.splits if_splits decode_failure.splits)
qed

text \<open>
  What an operation does with the answer of the API, for a response that passes
  \<^verbatim>\<open>raise_for_status\<close> and decodes to a JSON object \<open>d\<close>: with \<^verbatim>\<open>status\<close> equal to
  \<^verbatim>\<open>"1"\<close> it returns \<open>d\<close>; with any other \<^verbatim>\<open>status\<close>, or none, it prints the
  API's message and returns \<^verbatim>\<open>None\<close> when the message can be printed, and raises
  \<^verbatim>\<open>UnicodeEncodeError\<close> when it cannot. A response that is returned is the decoded
  body and has \<^verbatim>\<open>status\<close> \<^verbatim>\<open>"1"\<close>.
\<close>

lemma do_fetch_status:
  assumes sent: "sent_requests (trace_of (do_fetch self f net)) = [req]"
  shows "(\<forall>resp d. net req = Inr resp \<and> \<not> (400 \<le> status_code resp \<and> status_code resp < 600) \<and>
            json_body resp = Inr (JObj d) \<longrightarrow>
            (map_of d ''status'' \<noteq> Some (JStr ''1'') \<and>
             \<not> unprintable (get_default d ''message'' (JStr ''Unknown error'')) \<longrightarrow>
               returned (do_fetch self f net) = Inr None \<and>
               console (trace_of (do_fetch self f net)) =
                 [Print_api_error (get_default d ''message'' (JStr ''Unknown error''))]) \<and>
            (map_of d ''status'' \<noteq> Some (JStr ''1'') \<and>
             unprintable (get_default d ''message'' (JStr ''Unknown error'')) \<longrightarrow>
               returned (do_fetch self f net) = Inl UnicodeEncodeError) \<and>
            (map_of d ''status'' = Some (JStr ''1'') \<longrightarrow>
               returned (do_fetch self f net) = Inr (Some d))) \<and>
         (\<forall>d. returned (do_fetch self f net) = Inr (Some d) \<longrightarrow>
            (\<exists>resp. net req = Inr resp \<and> json_body resp = Inr (JObj d) \<and>
               map_of d ''status'' = Some (JStr ''1'')))"
proof -
  obtain ps what where call: "do_fetch self f net = api_call self ps what net"
    using do_fetch_api_call by blast
  show ?thesis
    using api_call_status[of self ps what net req] sent unfolding call by blast
qed

text \<open>
  Claim C3 fails on the code. The API answers with status 200 and the body
  \<^verbatim>\<open>{"status": "0", "message": "\ud800"}\<close>: the body decodes, its \<^verbatim>\<open>status\<close> is not
  \<^verbatim>\<open>"1"\<close>, and the \<^verbatim>\<open>print\<close> of the message, inside the \<^verbatim>\<open>try\<close>, raises
  \<^verbatim>\<open>UnicodeEncodeError\<close>, which neither handler catches: each of the three operations
  raises it, prints nothing and returns nothing. For the body \<^verbatim>\<open>[]\<close>, which has no
  \<^verbatim>\<open>status\<close> either, \<^verbatim>\<open>data.get\<close> raises \<^verbatim>\<open>AttributeError\<close>.
\<close>

theorem status_contract_failing_input:
  "returned (get_gas_prices (EtherscanAPI ''k'' 1)
      (answering (json_response 200
         (JObj [(''status'', JStr ''0''), (''message'', JUni [0xD800])])))) =
     Inl UnicodeEncodeError \<and>
   console (trace_of (get_gas_prices (EtherscanAPI ''k'' 1)
      (answering (json_response 200
         (JObj [(''status'', JStr ''0''), (''message'', JUni [0xD800])]))))) = [] \<and>
   returned (get_token_balance (EtherscanAPI ''k'' 1) ''0xc'' ''0xw''
      (answering (json_response 200
         (JObj [(''status'', JStr ''0''), (''message'', JUni [0xD800])])))) =
     Inl UnicodeEncodeError \<and>
   returned (get_eth_balance (EtherscanAPI ''k'' 1) ''0xw''
      (answering (json_response 200
         (JObj [(''status'', JStr ''0''), (''message'', JUni [0xD800])])))) =
     Inl UnicodeEncodeError \<and>
   returned (get_eth_balance (EtherscanAPI ''k'' 1) ''0xw''
      (answering (json_response 200 (JArr [])))) =
     Inl AttributeError"
  by (simp add: get_gas_prices_def get_token_balance_def get_eth_balance_def
      api_call_returned api_call_console api_try_def raise_for_status_def
      answering_def json_response_def get_default_def unprintable_def is_surrogate_def)

text \<open>
  Claim C2, as the code has it. Let \<open>req\<close> be the request an operation sends. When
  \<^verbatim>\<open>session.get\<close> raises (connection error, timeout, too many redirects), when the
  status code is a 4xx or 5xx, or when decoding the body raises a JSON decode error,
  the operation prints one line and returns \<^verbatim>\<open>None\<close>. And an exception that leaves an
  operation is never a \<^verbatim>\<open>RequestException\<close> and never a \<^verbatim>\<open>JSONDecodeError\<close>. (A
  status code outside 400..599 is no failure for \<^verbatim>\<open>raise_for_status\<close>, whether it is
  a 2xx or not.)
\<close>

theorem failures_return_none:
  assumes sent: "sent_requests (trace_of (do_fetch self f net)) = [req]"
  shows "((\<exists>err. net req = Inl err) \<or>
          (\<exists>resp. net req = Inr resp \<and>
             (400 \<le> status_code resp \<and> status_code resp < 600 \<or>
              (\<exists>jerr. json_body resp = Inl (Decode_error jerr)))) \<longrightarrow>
          returned (do_fetch self f net) = Inr None \<and>
          length (console (trace_of (do_fetch self f net))) = 1) \<and>
         (\<forall>ex. returned (do_fetch self f net) = Inl ex \<longrightarrow>
            \<not> is_RequestException ex \<and> \<not> is_JSONDecodeError ex)"
proof -
  obtain ps what where call: "do_fetch self f net = api_call self ps what net"
    using do_fetch_api_call by blast
  show ?thesis
    using api_call_failures[of self ps what net req] sent unfolding call by blast
qed

theorem failures_return_none_witness:
  "returned (do_fetch (EtherscanAPI ''k'' 1) Gas_prices (failing Timeout)) = Inr None \<and>
   length (console (trace_of (do_fetch (EtherscanAPI ''k'' 1) Gas_prices (failing Timeout)))) = 1 \<and>
   returned (do_fetch (EtherscanAPI ''k'' 1) (Token_balance ''0xc'' ''0xw'')
     (answering (json_response 503 (JObj [(''status'', JStr ''1'')])))) = Inr None \<and>
   returned (do_fetch (EtherscanAPI ''k'' 1) (Eth_balance ''0xw'')
     (answering \<lparr>status_code = 200, set_cookies = [],
        json_body = Inl (Decode_error Stdlib_JSONDecodeError)\<rparr>)) = Inr None"
proof -
  let ?n1 = "failing Timeout"
  let ?n2 = "answering (json_response 503 (JObj [(''status'', JStr ''1'')]))"
  let ?n3 = "answering \<lparr>status_code = 200, set_cookies = [],
        json_body = Inl (Decode_error Stdlib_JSONDecodeError)\<rparr>"
  have s1: "sent_requests (trace_of (do_fetch (EtherscanAPI ''k'' 1) Gas_prices ?n1)) =
      [hd (sent_requests (trace_of (do_fetch (EtherscanAPI ''k'' 1) Gas_prices ?n1)))]"
    by (simp add: do_fetch_sent)
  have s2: "sent_requests (trace_of (do_fetch (EtherscanAPI ''k'' 1) (Token_balance ''0xc'' ''0xw'') ?n2)) =
      [hd (sent_requests (trace_of (do_fetch (EtherscanAPI ''k'' 1) (Token_balance ''0xc'' ''0xw'') ?n2)))]"
    by (simp add: do_fetch_sent)
  have s3: "sent_requests (trace_of (do_fetch (EtherscanAPI ''k'' 1) (Eth_balance ''0xw'') ?n3)) =
      [hd (sent_requests (trace_of (do_fetch (EtherscanAPI ''k'' 1) (Eth_balance ''0xw'') ?n3)))]"
    by (simp add: do_fetch_sent)
  show ?thesis
    using failures_return_none[OF s1] failures_return_none[OF s2] failures_return_none[OF s3]
    by (simp add: answering_def failing_def json_response_def)
qed

text \<open>
  Claim C2 as it is stated fails twice. A response with status 300 (not a 2xx) whose
  body is \<^verbatim>\<open>{"status": "1"}\<close> is returned to the caller, not \<^verbatim>\<open>None\<close>. And a response
  with status 200 whose body is the JSON array \<^verbatim>\<open>[]\<close> makes \<^verbatim>\<open>data.get\<close> raise
  \<^verbatim>\<open>AttributeError\<close>, which neither handler catches.
\<close>

theorem failures_return_none_counterexample:
  "returned (get_gas_prices (EtherscanAPI ''k'' 1)
      (answering (json_response 300 (JObj [(''status'', JStr ''1'')])))) =
     Inr (Some [(''status'', JStr ''1'')]) \<and>
   returned (get_gas_prices (EtherscanAPI ''k'' 1) (answering (json_response 200 (JArr [])))) =
     Inl AttributeError"
  by (simp add: get_gas_prices_def api_call_returned api_try_def raise_for_status_def
      answering_def json_response_def)

section \<open>Facts about the driver\<close>

lemma sent_requests_append: "sent_requests (xs @ ys) = sent_requests xs @ sent_requests ys"
  by (induction xs rule: sent_requests.induct) simp_all

lemma gas_format_calls_append:
  "gas_format_calls (xs @ ys) = gas_format_calls xs @ gas_format_calls ys"
  by (induction xs rule: gas_format_calls.induct) simp_all

lemma balance_format_calls_append:
  "balance_format_calls (xs @ ys) = balance_format_calls xs @ balance_format_calls ys"
  by (induction xs rule: balance_format_calls.induct) simp_all

lemma prints_quiet:
  "sent_requests (prints ls) = []" "gas_format_calls (prints ls) = []"
  "balance_format_calls (prints ls) = []"
  by (induction ls) (simp_all add: prints_def)

lemma api_call_quiet:
  "gas_format_calls (trace_of (api_call self ps what net)) = []"
  "balance_format_calls (trace_of (api_call self ps what net)) = []"
  by (auto simp: api_call_def trace_of_def session_get_def api_try_def Let_def
      gas_format_calls_append balance_format_calls_append
      split: sum.splits prod.splits json.splits if_splits)

lemma then_do_run:
  "run_trace (then_do r f) =
     (if run_raised r = None then run_trace r @ run_trace (f (run_client r)) else run_trace r)"
  "run_raised (then_do r f) =
     (if run_raised r = None then run_raised (f (run_client r)) else run_raised r)"
  "run_client (then_do r f) =
     (if run_raised r = None then run_client (f (run_client r)) else run_client r)"
  by (auto simp: then_do_def run_trace_def run_raised_def run_client_def split: prod.splits option.splits)

lemma banner_run:
  "run_raised (banner api) = None" "run_client (banner api) = api"
  "sent_requests (run_trace (banner api)) = []"
  "gas_format_calls (run_trace (banner api)) = []"
  "balance_format_calls (run_trace (banner api)) = []"
  by (simp_all add: banner_def run_raised_def run_client_def run_trace_def prints_quiet)

lemma summary_run:
  "run_raised (summary api) = None"
  "sent_requests (run_trace (summary api)) = []"
  "gas_format_calls (run_trace (summary api)) = []"
  "balance_format_calls (run_trace (summary api)) = []"
  by (simp_all add: summary_def run_raised_def run_trace_def prints_quiet)

lemma example_gas_run:
  "run_client (example_gas render net api) = client_after (get_gas_prices api net)"
  "sent_requests (run_trace (example_gas render net api)) =
     sent_requests (trace_of (get_gas_prices api net))"
  "balance_format_calls (run_trace (example_gas render net api)) = []"
  "returned (get_gas_prices api net) = Inr None \<Longrightarrow>
     gas_format_calls (run_trace (example_gas render net api)) = [] \<and>
     run_raised (example_gas render net api) = None"
  by (auto simp: example_gas_def Let_def run_client_def run_trace_def run_raised_def truthy_def
      sent_requests_append gas_format_calls_append balance_format_calls_append prints_quiet
      get_gas_prices_def api_call_quiet split: sum.splits)

lemma show_balance_run:
  "run_client (show_balance (api_call self ps what net) (prints ls) decimals label unit_name) =
     client_after (api_call self ps what net)"
  "sent_requests (run_trace (show_balance (api_call self ps what net) (prints ls) decimals label unit_name)) =
     sent_requests (trace_of (api_call self ps what net))"
  "gas_format_calls (run_trace (show_balance (api_call self ps what net) (prints ls) decimals label unit_name)) = []"
  "returned (api_call self ps what net) = Inr None \<Longrightarrow>
     balance_format_calls
       (run_trace (show_balance (api_call self ps what net) (prints ls) decimals label unit_name)) = [] \<and>
     run_raised (show_balance (api_call self ps what net) (prints ls) decimals label unit_name) = None"
  by (auto simp: show_balance_def Let_def run_client_def run_trace_def run_raised_def truthy_def
      sent_requests_append gas_format_calls_append balance_format_calls_append prints_quiet
      api_call_quiet split: sum.splits)

lemma example_token_run:
  "run_client (example_token net api) =
     client_after (get_token_balance api usdt_contract example_wallet net)"
  "sent_requests (run_trace (example_token net api)) =
     sent_requests (trace_of (get_token_balance api usdt_contract example_wallet net))"
  "gas_format_calls (run_trace (example_token net api)) = []"
  "returned (get_token_balance api usdt_contract example_wallet net) = Inr None \<Longrightarrow>
     balance_format_calls (run_trace (example_token net api)) = [] \<and>
     run_raised (example_token net api) = None"
  unfolding example_token_def get_token_balance_def by (simp_all add: show_balance_run)

lemma example_eth_run:
  "run_client (example_eth net api) = client_after (get_eth_balance api example_wallet net)"
  "sent_requests (run_trace (example_eth net api)) =
     sent_requests (trace_of (get_eth_balance api example_wallet net))"
  "gas_format_calls (run_trace (example_eth net api)) = []"
  "returned (get_eth_balance api example_wallet net) = Inr None \<Longrightarrow>
     balance_format_calls (run_trace (example_eth net api)) = [] \<and>
     run_raised (example_eth net api) = None"
  unfolding example_eth_def get_eth_balance_def by (simp_all add: show_balance_run)

lemma fetch_sends_one:
  "length (sent_requests (trace_of (get_gas_prices api net))) = 1"
  "length (sent_requests (trace_of (get_token_balance api c w net))) = 1"
  "length (sent_requests (trace_of (get_eth_balance api w net))) = 1"
  by (simp_all add: get_gas_prices_def get_token_balance_def get_eth_balance_def api_call_sent)

lemma balance_calls_decimals:
  "snd ` set (balance_format_calls (run_trace (example_token net api))) \<subseteq> {6}"
  "snd ` set (balance_format_calls (run_trace (example_eth net api))) \<subseteq> {18}"
  by (auto simp: example_token_def example_eth_def show_balance_def Let_def run_trace_def
      get_token_balance_def get_eth_balance_def
      balance_format_calls_append prints_quiet api_call_quiet split: sum.splits if_splits)


text \<open>
  Claim C9. In \<^verbatim>\<open>main\<close>, with \<open>api0\<close> the client it builds, \<open>api1\<close> the client after
  the first fetch and \<open>api2\<close> after the second: when \<^verbatim>\<open>get_gas_prices\<close> returns
  \<^verbatim>\<open>None\<close>, \<^verbatim>\<open>format_gas_prices\<close> is never called and the second request is sent;
  when example 1 ended without an exception and \<^verbatim>\<open>get_token_balance\<close> returns
  \<^verbatim>\<open>None\<close>, \<^verbatim>\<open>format_balance\<close> is not called with 6 decimals and all three requests
  are sent; when examples 1 and 2 ended without an exception and \<^verbatim>\<open>get_eth_balance\<close>
  returns \<^verbatim>\<open>None\<close>, \<^verbatim>\<open>format_balance\<close> is not called with 18 decimals and
  \<^verbatim>\<open>main\<close> ends without an exception.
\<close>

theorem absent_result_is_skipped:
  assumes api0: "api0 = EtherscanAPI ''YourApiKeyToken'' 1"
    and api1: "api1 = client_after (get_gas_prices api0 net1)"
    and api2: "api2 = client_after (get_token_balance api1 usdt_contract example_wallet net2)"
    and M: "M = main render net1 net2 net3"
  shows
    "(returned (get_gas_prices api0 net1) = Inr None \<longrightarrow>
        gas_format_calls (run_trace M) = [] \<and> 2 \<le> length (sent_requests (run_trace M))) \<and>
     (run_raised (example_gas render net1 api0) = None \<and>
      returned (get_token_balance api1 usdt_contract example_wallet net2) = Inr None \<longrightarrow>
        6 \<notin> snd ` set (balance_format_calls (run_trace M)) \<and>
        length (sent_requests (run_trace M)) = 3) \<and>
     (run_raised (example_gas render net1 api0) = None \<and>
      run_raised (example_token net2 api1) = None \<and>
      returned (get_eth_balance api2 example_wallet net3) = Inr None \<longrightarrow>
        18 \<notin> snd ` set (balance_format_calls (run_trace M)) \<and> run_raised M = None)"
proof -
  let ?B = "banner api0"
  let ?G = "then_do ?B (example_gas render net1)"
  let ?T = "then_do ?G (example_token net2)"
  let ?E = "then_do ?T (example_eth net3)"
  have M': "M = then_do ?E summary"
    by (simp add: M main_def api0)
  have G_client: "run_client ?G = api1"
    by (simp add: then_do_run[of "?B"] banner_run example_gas_run api1)
  have G_raised: "run_raised ?G = run_raised (example_gas render net1 api0)"
    by (simp add: then_do_run[of "?B"] banner_run)
  have G_sent: "length (sent_requests (run_trace ?G)) = 1"
    by (simp add: then_do_run[of "?B"] banner_run sent_requests_append example_gas_run fetch_sends_one)
  have G_bal: "balance_format_calls (run_trace ?G) = []"
    by (simp add: then_do_run[of "?B"] banner_run balance_format_calls_append example_gas_run)
  have T_client: "run_raised ?G = None \<Longrightarrow> run_client ?T = api2"
    by (simp add: then_do_run[of "?G"] G_client example_token_run api2)
  have T_raised: "run_raised ?G = None \<Longrightarrow> run_raised ?T = run_raised (example_token net2 api1)"
    by (simp add: then_do_run[of "?G"] G_client)
  have T_sent: "run_raised ?G = None \<Longrightarrow> length (sent_requests (run_trace ?T)) = 2"
    by (simp add: then_do_run[of "?G"] G_client G_sent sent_requests_append example_token_run fetch_sends_one)
  have T_gas: "gas_format_calls (run_trace ?T) = gas_format_calls (run_trace ?G)"
    by (simp add: then_do_run[of "?G"] gas_format_calls_append example_token_run)
  have E_gas: "gas_format_calls (run_trace M) = gas_format_calls (run_trace ?G)"
    by (simp add: M' then_do_run[of "?E"] then_do_run[of "?T"] gas_format_calls_append example_eth_run summary_run T_gas)
  have sent_M: "sent_requests (run_trace M) = sent_requests (run_trace ?E)"
    by (simp add: M' then_do_run[of "?E"] sent_requests_append summary_run)
  have bal_M: "balance_format_calls (run_trace M) = balance_format_calls (run_trace ?E)"
    by (simp add: M' then_do_run[of "?E"] balance_format_calls_append summary_run)
  have first: "gas_format_calls (run_trace M) = [] \<and> 2 \<le> length (sent_requests (run_trace M))"
    if absent: "returned (get_gas_prices api0 net1) = Inr None"
  proof -
    have ok: "run_raised ?G = None"
      using example_gas_run(4)[OF absent] by (simp add: G_raised)
    have "gas_format_calls (run_trace ?G) = []"
      using example_gas_run(4)[OF absent]
      by (simp add: then_do_run[of "?B"] banner_run gas_format_calls_append)
    moreover have "2 \<le> length (sent_requests (run_trace ?E))"
      using T_sent[OF ok] by (simp add: then_do_run[of "?T"] sent_requests_append)
    ultimately show ?thesis
      by (simp add: E_gas sent_M)
  qed
  have second: "6 \<notin> snd ` set (balance_format_calls (run_trace M)) \<and>
      length (sent_requests (run_trace M)) = 3"
    if ok: "run_raised (example_gas render net1 api0) = None"
      and absent: "returned (get_token_balance api1 usdt_contract example_wallet net2) = Inr None"
  proof -
    have okG: "run_raised ?G = None"
      using ok by (simp add: G_raised)
    have okT: "run_raised ?T = None"
      using example_token_run(4)[OF absent] by (simp add: T_raised[OF okG])
    have T_bal: "balance_format_calls (run_trace ?T) = []"
      using example_token_run(4)[OF absent] okG
      by (simp add: then_do_run[of "?G"] G_client G_bal balance_format_calls_append)
    have "snd ` set (balance_format_calls (run_trace ?E)) \<subseteq> {18}"
      using balance_calls_decimals(2)[of net3 api2] okT
      by (simp add: then_do_run[of "?T"] balance_format_calls_append T_bal T_client[OF okG])
    then have "6 \<notin> snd ` set (balance_format_calls (run_trace ?E))"
      by auto
    moreover have "length (sent_requests (run_trace ?E)) = 3"
      using okT T_sent[OF okG]
      by (simp add: then_do_run[of "?T"] sent_requests_append example_eth_run fetch_sends_one)
    ultimately show ?thesis
      by (simp add: bal_M sent_M)
  qed
  have third: "18 \<notin> snd ` set (balance_format_calls (run_trace M)) \<and> run_raised M = None"
    if ok1: "run_raised (example_gas render net1 api0) = None"
      and ok2: "run_raised (example_token net2 api1) = None"
      and absent: "returned (get_eth_balance api2 example_wallet net3) = Inr None"
  proof -
    have okG: "run_raised ?G = None"
      using ok1 by (simp add: G_raised)
    have okT: "run_raised ?T = None"
      using ok2 by (simp add: T_raised[OF okG])
    have E_ok: "run_raised ?E = None"
      using example_eth_run(4)[OF absent] okT by (simp add: then_do_run[of "?T"] T_client[OF okG])
    have "snd ` set (balance_format_calls (run_trace ?T)) \<subseteq> {6}"
      using balance_calls_decimals(1)[of net2 api1] okG
      by (simp add: then_do_run[of "?G"] balance_format_calls_append G_bal G_client)
    moreover have "balance_format_calls (run_trace ?E) = balance_format_calls (run_trace ?T)"
      using example_eth_run(4)[OF absent] okT
      by (simp add: then_do_run[of "?T"] balance_format_calls_append T_client[OF okG])
    ultimately have "18 \<notin> snd ` set (balance_format_calls (run_trace ?E))"
      by auto
    moreover have "run_raised M = None"
      using E_ok by (simp add: M' then_do_run[of "?E"] summary_run)
    ultimately show ?thesis
      by (simp add: bal_M)
  qed
  show ?thesis
    using first second third by blast
qed

text \<open>
  The simulated response of the specification: every request is answered by
  \<^verbatim>\<open>{"status": "0", "message": "NOTOK"}\<close>. No formatter is called, the three requests
  are sent and \<^verbatim>\<open>main\<close> ends normally.
\<close>

theorem absent_result_is_skipped_witness:
  "gas_format_calls (run_trace (main render_atoms
      (answering (json_response 200 (JObj [(''status'', JStr ''0''), (''message'', JStr ''NOTOK'')])))
      (answering (json_response 200 (JObj [(''status'', JStr ''0''), (''message'', JStr ''NOTOK'')])))
      (answering (json_response 200 (JObj [(''status'', JStr ''0''), (''message'', JStr ''NOTOK'')]))))) = [] \<and>
   6 \<notin> snd ` set (balance_format_calls (run_trace (main render_atoms
      (answering (json_response 200 (JObj [(''status'', JStr ''0''), (''message'', JStr ''NOTOK'')])))
      (answering (json_response 200 (JObj [(''status'', JStr ''0''), (''message'', JStr ''NOTOK'')])))
      (answering (json_response 200 (JObj [(''status'', JStr ''0''), (''message'', JStr ''NOTOK'')])))))) \<and>
   18 \<notin> snd ` set (balance_format_calls (run_trace (main render_atoms
      (answering (json_response 200 (JObj [(''status'', JStr ''0''), (''message'', JStr ''NOTOK'')])))
      (answering (json_response 200 (JObj [(''status'', JStr ''0''), (''message'', JStr ''NOTOK'')])))
      (answering (json_response 200 (JObj [(''status'', JStr ''0''), (''message'', JStr ''NOTOK'')])))))) \<and>
   length (sent_requests (run_trace (main render_atoms
      (answering (json_response 200 (JObj [(''status'', JStr ''0''), (''message'', JStr ''NOTOK'')])))
      (answering (json_response 200 (JObj [(''status'', JStr ''0''), (''message'', JStr ''NOTOK'')])))
      (answering (json_response 200 (JObj [(''status'', JStr ''0''), (''message'', JStr ''NOTOK'')])))))) = 3 \<and>
   run_raised (main render_atoms
      (answering (json_response 200 (JObj [(''status'', JStr ''0''), (''message'', JStr ''NOTOK'')])))
      (answering (json_response 200 (JObj [(''status'', JStr ''0''), (''message'', JStr ''NOTOK'')])))
      (answering (json_response 200 (JObj [(''status'', JStr ''0''), (''message'', JStr ''NOTOK'')])))) = None"
proof -
  let ?net = "answering (json_response 200 (JObj [(''status'', JStr ''0''), (''message'', JStr ''NOTOK'')]))"
  have none: "returned (api_call self ps what ?net) = Inr None" for self ps what
    by (simp add: api_call_returned api_try_def raise_for_status_def answering_def json_response_def
        get_default_def unprintable_def)
  have r1: "returned (get_gas_prices self ?net) = Inr None" for self
    by (simp add: get_gas_prices_def none)
  have r2: "returned (get_token_balance self c w ?net) = Inr None" for self c w
    by (simp add: get_token_balance_def none)
  have r3: "returned (get_eth_balance self w ?net) = Inr None" for self w
    by (simp add: get_eth_balance_def none)
  show ?thesis
    using absent_result_is_skipped[OF refl refl refl refl,
        where ?net1.0 = ?net and ?net2.0 = ?net and ?net3.0 = ?net and render = render_atoms]
      example_gas_run(4)[OF r1] example_token_run(4)[OF r2] r1 r2 r3
    by simp
qed


section \<open>Facts about the gas price report\<close>

text \<open>
  Claim C7, as the code has it. For a response whose \<^verbatim>\<open>result\<close> is a mapping,
  \<^verbatim>\<open>format_gas_prices\<close> does not fail and joins these lines: the heading; one line
  for each of \<^verbatim>\<open>SafeGasPrice\<close>, \<^verbatim>\<open>ProposeGasPrice\<close>, \<^verbatim>\<open>FastGasPrice\<close> and
  \<^verbatim>\<open>LastBlock\<close>, showing \<^verbatim>\<open>N/A\<close> for a missing field, a string value as it is, and
  any other value as Python writes it; and then the base-fee line exactly when the
  result has \<^verbatim>\<open>suggestBaseFee\<close> with a value other than \<^verbatim>\<open>null\<close>.
\<close>

theorem gas_report_lines:
  assumes result: "map_of data ''result'' = Some (JObj result)"
  shows
    "format_gas_prices render data = Inr (join_lines (gas_price_lines render result)) \<and>
     take 5 (gas_price_lines render result) =
       [[CHR 0x0A] @ ''=== Current Gas Prices (Gwei) ==='',
        ''Safe Gas Price:    '' @
          (case map_of result ''SafeGasPrice'' of None \<Rightarrow> ''N/A'' | Some v \<Rightarrow> py_str render v) @ '' Gwei'',
        ''Propose Gas Price: '' @
          (case map_of result ''ProposeGasPrice'' of None \<Rightarrow> ''N/A'' | Some v \<Rightarrow> py_str render v) @ '' Gwei'',
        ''Fast Gas Price:    '' @
          (case map_of result ''FastGasPrice'' of None \<Rightarrow> ''N/A'' | Some v \<Rightarrow> py_str render v) @ '' Gwei'',
        ''Last Block:        '' @
          (case map_of result ''LastBlock'' of None \<Rightarrow> ''N/A'' | Some v \<Rightarrow> py_str render v)] \<and>
     (\<forall>s. py_str render (JStr s) = s) \<and>
     drop 5 (gas_price_lines render result) =
       (case map_of result ''suggestBaseFee'' of
          None \<Rightarrow> []
        | Some v \<Rightarrow>
            if v = JNull then [] else [''Suggested Base Fee: '' @ py_str render v @ '' Gwei''])"
proof -
  have nonempty: "data \<noteq> []"
    using result by auto
  have fmt: "format_gas_prices render data = Inr (join_lines (gas_price_lines render result))"
    using result nonempty by (simp add: format_gas_prices_def)
  have field: "py_str render (get_default result k (JStr ''N/A'')) =
      (case map_of result k of None \<Rightarrow> ''N/A'' | Some v \<Rightarrow> py_str render v)" for k
    by (simp add: get_default_def py_str_def split: option.splits)
  have head: "take 5 (gas_price_lines render result) =
       [[CHR 0x0A] @ ''=== Current Gas Prices (Gwei) ==='',
        ''Safe Gas Price:    '' @
          (case map_of result ''SafeGasPrice'' of None \<Rightarrow> ''N/A'' | Some v \<Rightarrow> py_str render v) @ '' Gwei'',
        ''Propose Gas Price: '' @
          (case map_of result ''ProposeGasPrice'' of None \<Rightarrow> ''N/A'' | Some v \<Rightarrow> py_str render v) @ '' Gwei'',
        ''Fast Gas Price:    '' @
          (case map_of result ''FastGasPrice'' of None \<Rightarrow> ''N/A'' | Some v \<Rightarrow> py_str render v) @ '' Gwei'',
        ''Last Block:        '' @
          (case map_of result ''LastBlock'' of None \<Rightarrow> ''N/A'' | Some v \<Rightarrow> py_str render v)]"
    unfolding gas_price_lines_def Let_def field by simp
  have tail: "drop 5 (gas_price_lines render result) =
       (case map_of result ''suggestBaseFee'' of
          None \<Rightarrow> []
        | Some v \<Rightarrow>
            if v = JNull then [] else [''Suggested Base Fee: '' @ py_str render v @ '' Gwei''])"
    by (simp add: gas_price_lines_def Let_def get_default_def split: option.splits)
  have str: "\<forall>s. py_str render (JStr s) = s"
    by (simp add: py_str_def)
  show ?thesis
    using fmt head tail str by blast
qed

text \<open>
  The simulated response of the specification: the four values appear as they are and
  there is no base-fee line.
\<close>

theorem gas_report_lines_witness:
  "format_gas_prices render_atoms
     [(''status'', JStr ''1''),
      (''result'', JObj [(''SafeGasPrice'', JStr ''20''), (''ProposeGasPrice'', JStr ''22''),
                        (''FastGasPrice'', JStr ''24''), (''LastBlock'', JStr ''100'')])] =
   Inr (join_lines
     [[CHR 0x0A] @ ''=== Current Gas Prices (Gwei) ==='',
      ''Safe Gas Price:    20 Gwei'',
      ''Propose Gas Price: 22 Gwei'',
      ''Fast Gas Price:    24 Gwei'',
      ''Last Block:        100''])"
proof -
  let ?result = "[(''SafeGasPrice'', JStr ''20''), (''ProposeGasPrice'', JStr ''22''),
                  (''FastGasPrice'', JStr ''24''), (''LastBlock'', JStr ''100'')]"
  let ?data = "[(''status'', JStr ''1''), (''result'', JObj ?result)]"
  have result: "map_of ?data ''result'' = Some (JObj ?result)"
    by simp
  have parts: "gas_price_lines render_atoms ?result =
      take 5 (gas_price_lines render_atoms ?result) @ drop 5 (gas_price_lines render_atoms ?result)"
    by simp
  show ?thesis
    using gas_report_lines[OF result, of render_atoms] parts
    by (simp add: py_str_def)
qed

text \<open>
  Claim C7 as it is stated fails when the result has \<^verbatim>\<open>suggestBaseFee\<close> with the
  value \<^verbatim>\<open>null\<close>: the result contains the field, and the report has no base-fee line.
\<close>

theorem gas_report_counterexample:
  "map_of [(''suggestBaseFee'', JNull)] ''suggestBaseFee'' = Some JNull \<and>
   format_gas_prices render_atoms [(''result'', JObj [(''suggestBaseFee'', JNull)])] =
   Inr (join_lines
     [[CHR 0x0A] @ ''=== Current Gas Prices (Gwei) ==='',
      ''Safe Gas Price:    N/A Gwei'',
      ''Propose Gas Price: N/A Gwei'',
      ''Fast Gas Price:    N/A Gwei'',
      ''Last Block:        N/A''])"
  by (simp add: format_gas_prices_def gas_price_lines_def get_default_def py_str_def)


section \<open>Accuracy of the balance format\<close>

lemma round_half_even_error:
  assumes den: "0 < den"
  shows "\<bar>real_of_int (round_half_even num den) - real_of_int num / real_of_int den\<bar> \<le> 1 / 2"
proof -
  define q where "q = num div den"
  define r where "r = num mod den"
  have r: "0 \<le> r" "r < den"
    using den by (simp_all add: r_def)
  have split: "real_of_int num / real_of_int den = real_of_int q + real_of_int r / real_of_int den"
    unfolding q_def r_def by (rule of_int_div_aux)
  have dpos: "0 < real_of_int den"
    using den by simp
  have frac: "0 \<le> real_of_int r / real_of_int den"
    using r dpos by simp
  consider (low) "2 * r < den" | (high) "den < 2 * r" | (tie) "2 * r = den"
    by linarith
  then show ?thesis
  proof cases
    case low
    then have "2 * real_of_int r < real_of_int den"
      by linarith
    then have "real_of_int r / real_of_int den < 1 / 2"
      using dpos by (simp add: pos_divide_less_eq)
    moreover have "round_half_even num den = q"
      using low by (simp add: round_half_even_def Let_def q_def r_def)
    ultimately show ?thesis
      using frac split by simp
  next
    case high
    then have "real_of_int den < 2 * real_of_int r"
      by linarith
    then have "1 / 2 < real_of_int r / real_of_int den"
      using dpos by (simp add: pos_less_divide_eq)
    moreover have "real_of_int r / real_of_int den < 1"
      using r dpos by simp
    moreover have "round_half_even num den = q + 1"
      using high by (simp add: round_half_even_def Let_def q_def r_def)
    ultimately show ?thesis
      using split by simp
  next
    case tie
    then have "2 * real_of_int r = real_of_int den"
      by linarith
    then have "real_of_int r / real_of_int den = 1 / 2"
      using dpos by (simp add: divide_eq_eq)
    moreover have "round_half_even num den = q \<or> round_half_even num den = q + 1"
      using tie by (simp add: round_half_even_def Let_def q_def r_def)
    ultimately show ?thesis
      using split by auto
  qed
qed

lemma round_half_even_nonneg:
  "0 \<le> num \<Longrightarrow> 0 < den \<Longrightarrow> 0 \<le> round_half_even num den"
  by (simp add: round_half_even_def Let_def pos_imp_zdiv_nonneg_iff)

lemma bit_length_pos: "0 < x \<Longrightarrow> bit_length x = Suc (bit_length (x div 2))"
  by (subst bit_length.simps) simp

lemma bit_length_nonpos: "x \<le> 0 \<Longrightarrow> bit_length x = 0"
  by (subst bit_length.simps) simp

lemma bit_length_bounds:
  "0 < x \<Longrightarrow> 2 ^ (bit_length x - 1) \<le> x \<and> x < 2 ^ bit_length x"
proof (induction x rule: bit_length.induct)
  case (1 n)
  have len: "bit_length n = Suc (bit_length (n div 2))"
    using "1.prems" by (rule bit_length_pos)
  show ?case
  proof (cases "n div 2 \<le> 0")
    case True
    then have one: "n = 1"
      using "1.prems" by linarith
    have zero: "bit_length (n div 2) = 0"
      using True by (rule bit_length_nonpos)
    show ?thesis
      unfolding len zero using one by simp
  next
    case False
    then have pos: "0 < n div 2"
      by simp
    have ih: "2 ^ (bit_length (n div 2) - 1) \<le> n div 2 \<and> n div 2 < 2 ^ bit_length (n div 2)"
      using "1.IH" "1.prems" pos by simp
    obtain b where b: "bit_length (n div 2) = Suc b"
      using bit_length_pos[OF pos] by blast
    have lo: "(2::int) ^ b \<le> n div 2" and hi: "n div 2 < 2 ^ Suc b"
      using ih unfolding b by simp_all
    have "2 * (n div 2) \<le> n" "n \<le> 2 * (n div 2) + 1"
      by linarith+
    then have "2 * 2 ^ b \<le> n" "n < 2 * 2 ^ Suc b"
      using lo hi by linarith+
    then show ?thesis
      unfolding len b by simp
  qed
qed

lemma two_powr_int:
  "(2::real) powr real_of_int k = (if 0 \<le> k then 2 ^ nat k else 1 / 2 ^ nat (- k))"
proof (cases "0 \<le> k")
  case True
  then have "real_of_int k = real (nat k)"
    by simp
  then have "(2::real) powr real_of_int k = 2 ^ nat k"
    by (simp only: powr_realpow zero_less_numeral)
  then show ?thesis
    using True by simp
next
  case False
  then have "real_of_int k = - real (nat (- k))"
    by simp
  then have "(2::real) powr real_of_int k = 1 / 2 powr real (nat (- k))"
    by (simp only: powr_minus_divide)
  then have "(2::real) powr real_of_int k = 1 / 2 ^ nat (- k)"
    by (simp only: powr_realpow zero_less_numeral)
  then show ?thesis
    using False by simp
qed

lemma bit_length_real_bounds:
  assumes "0 < x"
  shows "2 powr (real (bit_length x) - 1) \<le> real_of_int x"
    and "real_of_int x < 2 powr real (bit_length x)"
proof -
  obtain b where b: "bit_length x = Suc b"
    using bit_length_pos[OF assms] by blast
  have "2 ^ b \<le> x" "x < 2 ^ Suc b"
    using bit_length_bounds[OF assms] unfolding b by simp_all
  then have "real_of_int (2 ^ b) \<le> real_of_int x" "real_of_int x < real_of_int (2 ^ Suc b)"
    by (simp_all only: of_int_le_iff of_int_less_iff)
  then have lo: "(2::real) ^ b \<le> real_of_int x" and hi: "real_of_int x < 2 ^ Suc b"
    by simp_all
  have "real (bit_length x) - 1 = real b"
    by (simp add: b)
  then show "2 powr (real (bit_length x) - 1) \<le> real_of_int x"
    using lo by (simp add: powr_realpow)
  show "real_of_int x < 2 powr real (bit_length x)"
    using hi unfolding b by (simp only: powr_realpow zero_less_numeral)
qed

lemma floor_log2_bounds:
  assumes x: "0 < x" and y: "0 < y"
  shows "2 powr real_of_int (floor_log2 x y) \<le> real_of_int x / real_of_int y"
    and "real_of_int x / real_of_int y < 2 powr (real_of_int (floor_log2 x y) + 1)"
proof -
  define X where "X = real_of_int x"
  define Y where "Y = real_of_int y"
  define k where "k = int (bit_length x) - int (bit_length y)"
  have Xpos: "0 < X" and Ypos: "0 < Y"
    using x y by (simp_all add: X_def Y_def)
  have xb: "2 powr (real (bit_length x) - 1) \<le> X" "X < 2 powr real (bit_length x)"
    using bit_length_real_bounds[OF x] by (simp_all add: X_def)
  have yb: "2 powr (real (bit_length y) - 1) \<le> Y" "Y < 2 powr real (bit_length y)"
    using bit_length_real_bounds[OF y] by (simp_all add: Y_def)
  have up: "X / Y < 2 powr (real_of_int k + 1)"
  proof -
    have "X / Y < 2 powr real (bit_length x) / 2 powr (real (bit_length y) - 1)"
      using xb(2) yb(1) Xpos Ypos by (intro frac_less) simp_all
    also have "\<dots> = 2 powr (real (bit_length x) - (real (bit_length y) - 1))"
      by (simp only: powr_diff)
    also have "real (bit_length x) - (real (bit_length y) - 1) = real_of_int k + 1"
      by (simp add: k_def)
    finally show ?thesis .
  qed
  have low: "2 powr (real_of_int k - 1) < X / Y"
  proof -
    have "2 powr (real (bit_length x) - 1) / 2 powr real (bit_length y) < X / Y"
      using xb(1) yb(2) Xpos Ypos by (intro frac_less2) simp_all
    moreover have "2 powr (real (bit_length x) - 1) / 2 powr real (bit_length y) =
        2 powr (real (bit_length x) - 1 - real (bit_length y))"
      by (simp only: powr_diff)
    moreover have "real (bit_length x) - 1 - real (bit_length y) = real_of_int k - 1"
      by (simp add: k_def)
    ultimately show ?thesis
      by simp
  qed
  define test where
    "test = (if 0 \<le> k then y * 2 ^ nat k \<le> x else y \<le> x * 2 ^ nat (- k))"
  have test: "test \<longleftrightarrow> 2 powr real_of_int k \<le> X / Y"
  proof (cases "0 \<le> k")
    case True
    have "y * 2 ^ nat k \<le> x \<longleftrightarrow> real_of_int (y * 2 ^ nat k) \<le> real_of_int x"
      by (simp only: of_int_le_iff)
    also have "\<dots> \<longleftrightarrow> Y * 2 ^ nat k \<le> X"
      by (simp add: X_def Y_def)
    also have "\<dots> \<longleftrightarrow> 2 ^ nat k \<le> X / Y"
      using Ypos by (simp add: pos_le_divide_eq mult.commute)
    finally show ?thesis
      using True by (simp add: test_def two_powr_int)
  next
    case False
    have "y \<le> x * 2 ^ nat (- k) \<longleftrightarrow> real_of_int y \<le> real_of_int (x * 2 ^ nat (- k))"
      by (simp only: of_int_le_iff)
    also have "\<dots> \<longleftrightarrow> Y \<le> X * 2 ^ nat (- k)"
      by (simp add: X_def Y_def)
    also have "\<dots> \<longleftrightarrow> 1 / 2 ^ nat (- k) \<le> X / Y"
      using Ypos by (simp add: field_simps)
    finally show ?thesis
      using False by (simp add: test_def two_powr_int)
  qed
  have L: "floor_log2 x y = (if test then k else k - 1)"
    by (simp add: floor_log2_def Let_def test_def k_def)
  show "2 powr real_of_int (floor_log2 x y) \<le> real_of_int x / real_of_int y"
    using test low by (simp add: L X_def Y_def)
  show "real_of_int x / real_of_int y < 2 powr (real_of_int (floor_log2 x y) + 1)"
    using test up by (auto simp: L X_def Y_def)
qed

lemma scaled_round_error:
  fixes x y e :: int
  assumes x: "0 \<le> x" and y: "0 < y"
  defines "m \<equiv> (if 0 \<le> e then round_half_even x (y * 2 ^ nat e)
                 else round_half_even (x * 2 ^ nat (- e)) y)"
  shows "0 \<le> m"
    and "\<bar>real_of_int m - real_of_int x / real_of_int y / 2 powr real_of_int e\<bar> \<le> 1 / 2"
proof -
  show "0 \<le> m"
    using x y by (simp add: m_def round_half_even_nonneg)
  show "\<bar>real_of_int m - real_of_int x / real_of_int y / 2 powr real_of_int e\<bar> \<le> 1 / 2"
  proof (cases "0 \<le> e")
    case True
    have den: "0 < y * 2 ^ nat e"
      using y by simp
    have pw: "(2::real) powr real_of_int e = 2 ^ nat e"
      using True by (simp add: two_powr_int)
    have eq: "real_of_int x / real_of_int (y * 2 ^ nat e) =
        real_of_int x / real_of_int y / 2 powr real_of_int e"
      unfolding pw by simp
    have "\<bar>real_of_int (round_half_even x (y * 2 ^ nat e)) -
        real_of_int x / real_of_int (y * 2 ^ nat e)\<bar> \<le> 1 / 2"
      by (rule round_half_even_error[OF den])
    then have "\<bar>real_of_int (round_half_even x (y * 2 ^ nat e)) -
        real_of_int x / real_of_int y / 2 powr real_of_int e\<bar> \<le> 1 / 2"
      by (simp only: eq)
    moreover have "m = round_half_even x (y * 2 ^ nat e)"
      using True by (simp add: m_def)
    ultimately show ?thesis
      by (simp only:)
  next
    case False
    have pw: "(2::real) powr real_of_int e = 1 / 2 ^ nat (- e)"
      using False by (simp add: two_powr_int)
    have eq: "real_of_int (x * 2 ^ nat (- e)) / real_of_int y =
        real_of_int x / real_of_int y / 2 powr real_of_int e"
      unfolding pw by simp
    have "\<bar>real_of_int (round_half_even (x * 2 ^ nat (- e)) y) -
        real_of_int (x * 2 ^ nat (- e)) / real_of_int y\<bar> \<le> 1 / 2"
      by (rule round_half_even_error[OF y])
    then have "\<bar>real_of_int (round_half_even (x * 2 ^ nat (- e)) y) -
        real_of_int x / real_of_int y / 2 powr real_of_int e\<bar> \<le> 1 / 2"
      by (simp only: eq)
    moreover have "m = round_half_even (x * 2 ^ nat (- e)) y"
      using False by (simp add: m_def)
    ultimately show ?thesis
      by (simp only:)
  qed
qed

lemma units6_error:
  "\<bar>real_of_int (units6 m e) - real_of_int m * 2 powr real_of_int e * 1000000\<bar> \<le> 1 / 2"
proof (cases "0 \<le> e")
  case True
  have pw: "(2::real) powr real_of_int e = 2 ^ nat e"
    using True by (simp add: two_powr_int)
  have "units6 m e = m * 1000000 * 2 ^ nat e"
    using True by (simp add: units6_def)
  then show ?thesis
    unfolding pw by simp
next
  case False
  have den: "(0::int) < 2 ^ nat (- e)"
    by simp
  have pw: "(2::real) powr real_of_int e = 1 / 2 ^ nat (- e)"
    using False by (simp add: two_powr_int)
  have eq: "real_of_int (m * 1000000) / real_of_int (2 ^ nat (- e)) =
      real_of_int m * 2 powr real_of_int e * 1000000"
    unfolding pw by simp
  have "\<bar>real_of_int (round_half_even (m * 1000000) (2 ^ nat (- e))) -
      real_of_int (m * 1000000) / real_of_int (2 ^ nat (- e))\<bar> \<le> 1 / 2"
    by (rule round_half_even_error[OF den])
  then have "\<bar>real_of_int (round_half_even (m * 1000000) (2 ^ nat (- e))) -
      real_of_int m * 2 powr real_of_int e * 1000000\<bar> \<le> 1 / 2"
    by (simp only: eq)
  moreover have "units6 m e = round_half_even (m * 1000000) (2 ^ nat (- e))"
    using False by (simp add: units6_def)
  ultimately show ?thesis
    by (simp only:)
qed

lemma units6_nonneg: "0 \<le> m \<Longrightarrow> 0 \<le> units6 m e"
  by (simp add: units6_def round_half_even_nonneg)

lemma int_true_div_accuracy:
  assumes a: "a \<noteq> 0" and b: "0 < b"
    and lo: "2 powr (- 1022) \<le> \<bar>real_of_int a\<bar> / real_of_int b"
    and hi: "\<bar>real_of_int a\<bar> / real_of_int b < 2 powr 1023"
  shows "\<exists>m e. int_true_div a b = Inr (Finite (a < 0) m e) \<and> 0 \<le> m \<and>
           \<bar>real_of_int m * 2 powr real_of_int e - \<bar>real_of_int a\<bar> / real_of_int b\<bar>
             \<le> \<bar>real_of_int a\<bar> / real_of_int b / 2 ^ 53"
proof -
  define x where "x = \<bar>a\<bar>"
  define q where "q = real_of_int x / real_of_int b"
  define L where "L = floor_log2 x b"
  define e where "e = L - 52"
  define m where "m = (if 0 \<le> e then round_half_even x (b * 2 ^ nat e)
                       else round_half_even (x * 2 ^ nat (- e)) b)"
  have x: "0 < x"
    using a by (simp add: x_def)
  have q_eq: "\<bar>real_of_int a\<bar> / real_of_int b = q"
    by (simp add: q_def x_def)
  have Lb: "2 powr real_of_int L \<le> q" "q < 2 powr (real_of_int L + 1)"
    using floor_log2_bounds[OF x b] by (simp_all add: q_def L_def)
  have two: "(1::real) < 2"
    by simp
  have "(2::real) powr (- 1022) < 2 powr (real_of_int L + 1)"
    using lo Lb(2) unfolding q_eq by linarith
  then have "- 1022 < real_of_int L + 1"
    by (simp only: powr_less_cancel_iff[OF two])
  then have L_lo: "- 1022 \<le> L"
    by linarith
  have "(2::real) powr real_of_int L < 2 powr 1023"
    using hi Lb(1) unfolding q_eq by linarith
  then have "real_of_int L < 1023"
    by (simp only: powr_less_cancel_iff[OF two])
  then have L_hi: "L \<le> 1022"
    by linarith
  have e_max: "max (floor_log2 x b - 52) (- 1074) = e"
    using L_lo by (simp add: e_def L_def)
  have e_hi: "e \<le> 970"
    using L_hi by (simp add: e_def)
  have m: "0 \<le> m" "\<bar>real_of_int m - q / 2 powr real_of_int e\<bar> \<le> 1 / 2"
    using scaled_round_error[of x b e] x b by (simp_all add: m_def q_def)
  have pe: "0 < (2::real) powr real_of_int e"
    by simp
  have "\<bar>real_of_int m * 2 powr real_of_int e - q\<bar> =
      \<bar>real_of_int m - q / 2 powr real_of_int e\<bar> * 2 powr real_of_int e"
  proof -
    have "real_of_int m * 2 powr real_of_int e - q =
        (real_of_int m - q / 2 powr real_of_int e) * 2 powr real_of_int e"
      using pe by (simp add: field_simps)
    then show ?thesis
      using pe by (simp add: abs_mult)
  qed
  also have "\<dots> \<le> 1 / 2 * 2 powr real_of_int e"
    using m(2) pe by (intro mult_right_mono) simp_all
  also have "\<dots> = 2 powr real_of_int L / 2 ^ 53"
  proof -
    have "real_of_int e = real_of_int L - 53 + 1"
      by (simp add: e_def)
    then have "(2::real) powr real_of_int e = 2 powr real_of_int L / 2 powr 53 * 2"
      by (simp add: powr_diff powr_add)
    moreover have "(2::real) powr 53 = 2 ^ 53"
      using powr_realpow[of "2::real" 53] by simp
    ultimately show ?thesis
      by simp
  qed
  also have "\<dots> \<le> q / 2 ^ 53"
    using Lb(1) by (intro divide_right_mono) simp_all
  finally have err: "\<bar>real_of_int m * 2 powr real_of_int e - q\<bar> \<le> q / 2 ^ 53" .
  have "int_true_div a b = Inr (Finite (a < 0) m e)"
    using a b e_hi x
    by (simp add: int_true_div_def Let_def x_def[symmetric] e_max m_def[symmetric])
  then show ?thesis
    using m(1) err unfolding q_eq by blast
qed

lemma dec_digits_length:
  "0 \<le> n \<Longrightarrow> n < 10 ^ Suc k \<Longrightarrow> length (dec_digits n) \<le> Suc k"
proof (induction k arbitrary: n)
  case 0
  then show ?case
    by (subst dec_digits.simps) simp
next
  case (Suc k)
  show ?case
  proof (cases "n < 10")
    case True
    then show ?thesis
      by (subst dec_digits.simps) simp
  next
    case False
    have "n < 10 * 10 ^ Suc k"
      using Suc.prems by simp
    then have "0 \<le> n div 10" "n div 10 < 10 ^ Suc k"
      using Suc.prems(1) by linarith+
    then have "length (dec_digits (n div 10)) \<le> Suc k"
      by (rule Suc.IH)
    then show ?thesis
      using False by (subst dec_digits.simps) simp
  qed
qed

lemma six_fraction_digits: "length (zero_pad 6 (dec_digits (N mod 1000000))) = 6"
proof -
  have "0 \<le> N mod 1000000" "N mod 1000000 < 10 ^ Suc 5"
    by simp_all
  then have "length (dec_digits (N mod 1000000)) \<le> Suc 5"
    by (rule dec_digits_length)
  then show ?thesis
    by (simp add: zero_pad_def)
qed

lemma format_balance_of_literal:
  assumes lit: "int_of_str s = Inr n" and quot: "int_true_div n (10 ^ decimals) = Inr (Finite neg m e)"
  shows "format_balance (JStr s) decimals = Inr (fixed6 neg (units6 m e))"
  using lit quot
  by (simp add: format_balance_def format_balance_body_def py_int_def format_6f_def)

text \<open>
  Claim C1, as the code has it. Let \<^verbatim>\<open>int()\<close> read the string as \<open>n\<close>, let
  \<open>decimals\<close> be at most 18 (the program uses 6 and 18) and let \<open>n / 10^decimals\<close> be
  below \<open>2^1023\<close> in magnitude. Then \<^verbatim>\<open>format_balance\<close> returns the sign of \<open>n\<close>, an
  integer part, a point and six fractional digits, standing for \<open>N\<close> millionths, where
  \<open>N / 10^6\<close> differs from the exact \<open>\<bar>n\<bar> / 10^decimals\<close> by at most that value
  divided by \<open>2^53\<close> (the rounding of the division to a float) plus half a millionth
  (the rounding to six digits).
\<close>

theorem format_balance_accuracy:
  assumes lit: "int_of_str s = Inr n"
    and dec: "decimals \<le> 18"
    and range: "\<bar>n\<bar> < 2 ^ 1023 * 10 ^ decimals"
  shows "\<exists>N. format_balance (JStr s) decimals = Inr (fixed6 (n < 0) N) \<and> 0 \<le> N \<and>
           length (zero_pad 6 (dec_digits (N mod 1000000))) = 6 \<and>
           \<bar>real_of_int N / 1000000 - \<bar>real_of_int n\<bar> / 10 ^ decimals\<bar>
             \<le> \<bar>real_of_int n\<bar> / 10 ^ decimals / 2 ^ 53 + 1 / 2000000"
proof (cases "n = 0")
  case True
  have "int_true_div n (10 ^ decimals) = Inr (Finite (n < 0) 0 0)"
    using True by (simp add: int_true_div_def)
  then have "format_balance (JStr s) decimals = Inr (fixed6 (n < 0) (units6 0 0))"
    by (rule format_balance_of_literal[OF lit])
  moreover have "units6 0 0 = 0"
    by (simp add: units6_def)
  ultimately show ?thesis
    using True six_fraction_digits[of 0] by auto
next
  case False
  define q where "q = \<bar>real_of_int n\<bar> / 10 ^ decimals"
  have b: "(0::int) < 10 ^ decimals"
    by simp
  have q_eq: "\<bar>real_of_int n\<bar> / real_of_int (10 ^ decimals) = q"
    by (simp add: q_def)
  have small: "(10::real) ^ decimals \<le> 2 ^ 1022"
  proof -
    have "(10::real) ^ decimals \<le> 10 ^ 18"
      using dec by (intro power_increasing) simp_all
    also have "\<dots> \<le> 2 ^ 1022"
      by simp
    finally show ?thesis .
  qed
  have one: "1 \<le> \<bar>real_of_int n\<bar>"
  proof -
    have "1 \<le> \<bar>n\<bar>"
      using False by linarith
    then have "real_of_int 1 \<le> real_of_int \<bar>n\<bar>"
      by (simp only: of_int_le_iff)
    then show ?thesis
      by simp
  qed
  have lo: "2 powr (- 1022) \<le> q"
  proof -
    have "(2::real) powr (- 1022) = 1 / 2 ^ 1022"
      using two_powr_int[of "- 1022"] by simp
    also have "\<dots> \<le> 1 / 10 ^ decimals"
      using small by (intro divide_left_mono) simp_all
    also have "\<dots> \<le> q"
      unfolding q_def using one by (intro divide_right_mono) simp_all
    finally show ?thesis .
  qed
  have hi: "q < 2 powr 1023"
  proof -
    have "real_of_int \<bar>n\<bar> < real_of_int (2 ^ 1023 * 10 ^ decimals)"
      using range by (simp only: of_int_less_iff)
    then have "\<bar>real_of_int n\<bar> < 2 ^ 1023 * 10 ^ decimals"
      by simp
    then have "q < 2 ^ 1023"
      unfolding q_def by (simp add: pos_divide_less_eq)
    moreover have "(2::real) powr 1023 = 2 ^ 1023"
      using two_powr_int[of 1023] by simp
    ultimately show ?thesis
      by (simp only:)
  qed
  obtain m e where quot: "int_true_div n (10 ^ decimals) = Inr (Finite (n < 0) m e)"
    and m: "0 \<le> m"
    and err: "\<bar>real_of_int m * 2 powr real_of_int e - q\<bar> \<le> q / 2 ^ 53"
    using int_true_div_accuracy[OF False b] lo hi unfolding q_eq by blast
  define N where "N = units6 m e"
  have fmt: "format_balance (JStr s) decimals = Inr (fixed6 (n < 0) N)"
    unfolding N_def by (rule format_balance_of_literal[OF lit quot])
  have N: "0 \<le> N"
    unfolding N_def using m by (rule units6_nonneg)
  have "\<bar>real_of_int N - real_of_int m * 2 powr real_of_int e * 1000000\<bar> \<le> 1 / 2"
    unfolding N_def by (rule units6_error)
  then have "\<bar>real_of_int N / 1000000 - real_of_int m * 2 powr real_of_int e\<bar> \<le> 1 / 2000000"
    by (simp add: field_simps abs_if split: if_splits)
  then have "\<bar>real_of_int N / 1000000 - q\<bar> \<le> q / 2 ^ 53 + 1 / 2000000"
    using err by linarith
  then show ?thesis
    using fmt N six_fraction_digits[of N] unfolding q_def by blast
qed


theorem format_balance_accuracy_witness:
  "int_of_str ''123456789012345678901234567890'' = Inr 123456789012345678901234567890 \<and>
   (18::nat) \<le> 18 \<and>
   \<bar>123456789012345678901234567890 :: int\<bar> < 2 ^ 1023 * 10 ^ 18 \<and>
   (\<exists>N. format_balance (JStr ''123456789012345678901234567890'') 18 =
          Inr (fixed6 ((123456789012345678901234567890 :: int) < 0) N) \<and> 0 \<le> N \<and>
        length (zero_pad 6 (dec_digits (N mod 1000000))) = 6 \<and>
        \<bar>real_of_int N / 1000000 - \<bar>real_of_int 123456789012345678901234567890\<bar> / 10 ^ 18\<bar>
          \<le> \<bar>real_of_int 123456789012345678901234567890\<bar> / 10 ^ 18 / 2 ^ 53 + 1 / 2000000)"
proof -
  have lit: "int_of_str ''123456789012345678901234567890'' = Inr 123456789012345678901234567890"
    by code_simp
  have dec: "(18::nat) \<le> 18"
    by simp
  have range: "\<bar>123456789012345678901234567890 :: int\<bar> < 2 ^ 1023 * 10 ^ 18"
    by simp
  show ?thesis
    using lit dec range format_balance_accuracy[OF lit dec range] by (intro conjI)
qed

text \<open>
  Claim C1 as it is stated fails for a balance of 30 digits: the exact quotient is
  123456789012.345678901234567890, which six fractional digits show as
  \<^verbatim>\<open>123456789012.345678\<close> or, rounded up, \<^verbatim>\<open>123456789012.345679\<close>; the float nearest to
  the quotient is 123456789012.3456726\<dots>, and \<^verbatim>\<open>format_balance\<close> returns
  \<^verbatim>\<open>123456789012.345673\<close>.
\<close>

theorem format_balance_exact_counterexample:
  "int_of_str ''123456789012345678901234567890'' = Inr 123456789012345678901234567890 \<and>
   format_balance (JStr ''123456789012345678901234567890'') 18 = Inr ''123456789012.345673'' \<and>
   exact_fixed6 False 123456789012345678901234567890 18 = ''123456789012.345678'' \<and>
   exact_fixed6 True 123456789012345678901234567890 18 = ''123456789012.345679''"
  by code_simp

text \<open>
  Beyond the range of a float the division raises \<^verbatim>\<open>OverflowError\<close>, which the
  handler of \<^verbatim>\<open>format_balance\<close> does not catch: so for every literal whose value is
  \<open>2^1024 * 10^decimals\<close> or more in magnitude (a balance of 400 digits, say).
\<close>

lemma int_true_div_overflow:
  assumes b: "0 < b" and big: "2 ^ 1024 * b \<le> \<bar>a\<bar>"
  shows "int_true_div a b = Inl OverflowError"
proof -
  define x where "x = \<bar>a\<bar>"
  define L where "L = floor_log2 x b"
  define e where "e = max (floor_log2 x b - 52) (- 1074)"
  have x: "0 < x"
  proof -
    have "(0::int) < 2 ^ 1024 * b"
      using b by simp
    then show ?thesis
      using big unfolding x_def by linarith
  qed
  have "real_of_int (2 ^ 1024 * b) \<le> real_of_int x"
    using big unfolding x_def by (simp only: of_int_le_iff)
  then have "2 ^ 1024 * real_of_int b \<le> real_of_int x"
    by simp
  then have "(2::real) ^ 1024 \<le> real_of_int x / real_of_int b"
    using b by (simp add: pos_le_divide_eq)
  moreover have "(2::real) powr 1024 = 2 ^ 1024"
    using two_powr_int[of 1024] by simp
  ultimately have "(2::real) powr 1024 \<le> real_of_int x / real_of_int b"
    by (simp only:)
  then have "(2::real) powr 1024 < 2 powr (real_of_int L + 1)"
    using floor_log2_bounds(2)[OF x b] unfolding L_def by linarith
  moreover have two: "(1::real) < 2"
    by simp
  ultimately have "1024 < real_of_int L + 1"
    by (simp only: powr_less_cancel_iff[OF two])
  then have "1024 \<le> L"
    by linarith
  then have e: "971 < e"
    by (simp add: e_def L_def)
  have e_max: "max (floor_log2 x b - 52) (- 1074) = e"
    by (simp only: e_def)
  show ?thesis
    using b x e by (simp add: int_true_div_def Let_def x_def[symmetric] e_max)
qed

lemma format_balance_overflow:
  assumes lit: "int_of_str s = Inr n" and big: "2 ^ 1024 * 10 ^ decimals \<le> \<bar>n\<bar>"
  shows "format_balance (JStr s) decimals = Inl OverflowError"
proof -
  have "int_true_div n (10 ^ decimals) = Inl OverflowError"
    using big by (intro int_true_div_overflow) simp_all
  then show ?thesis
    using lit by (simp add: format_balance_def format_balance_body_def py_int_def)
qed


end
